theory Spec2Isabelle
  imports Complex_Main "HOL-Library.AList"
begin

section \<open>Python values shared by both modules\<close>

text \<open>
  Exceptions of the two modules are values. \<open>AssertionError\<close> carries the message of
  the failed \<open>assert\<close>; the others are the built-in exceptions that the statements of
  the source raise by themselves (a failed tuple unpacking, a missing dictionary key, an
  index into an empty list, iteration over \<open>None\<close>).
\<close>

datatype py_error =
    AssertionError string
  | ValueError
  | KeyError
  | IndexError
  | TypeError
  | RuntimeError

text \<open>How a run stops early: \<open>sys.exit(n)\<close>, or an exception nobody catches.\<close>

datatype stop = SystemExit int | Raised py_error

subsection \<open>Strings\<close>

text \<open>\<open>s.split(sep)\<close> for a one-character separator: every occurrence splits, and the
  empty string gives one empty piece.\<close>

fun py_split :: "char \<Rightarrow> string \<Rightarrow> string list" where
  "py_split sep [] = [[]]"
| "py_split sep (c # cs) =
     (if c = sep then [] # py_split sep cs
      else (case py_split sep cs of
              w # ws \<Rightarrow> (c # w) # ws
            | [] \<Rightarrow> [[c]]))"

text \<open>\<open>s.split(sep, 1)\<close>: at most one split, at the first occurrence.\<close>

definition py_split1 :: "char \<Rightarrow> string \<Rightarrow> string list" where
  "py_split1 sep s =
     (if sep \<in> set s
      then [takeWhile (\<lambda>c. c \<noteq> sep) s, tl (dropWhile (\<lambda>c. c \<noteq> sep) s)]
      else [s])"

text \<open>\<open>"{}".format(n)\<close> for an integer: decimal digits, a minus sign when negative.\<close>

definition digit_char :: "nat \<Rightarrow> char" where
  "digit_char d = ''0123456789'' ! d"

fun str_nat :: "nat \<Rightarrow> string" where
  "str_nat n = (if n < 10 then [digit_char n] else str_nat (n div 10) @ [digit_char (n mod 10)])"

declare str_nat.simps [simp del]

definition str_int :: "int \<Rightarrow> string" where
  "str_int i = (if i < 0 then ''-'' @ str_nat (nat (- i)) else str_nat (nat i))"

text \<open>
  A Python float: a finite one is the rational number it stores; the others are the
  two infinities and not-a-number. \<open>float_pos x\<close> is the comparison \<open>x > 0.\<close>, which
  not-a-number fails.
\<close>

datatype py_float = Finite rat | PosInf | NegInf | NaN

fun float_pos :: "py_float \<Rightarrow> bool" where
  "float_pos (Finite q) = (0 < q)"
| "float_pos PosInf = True"
| "float_pos NegInf = False"
| "float_pos NaN = False"

text \<open>
  \<open>"{:.1f}".format(a)\<close>. On a finite float the format rounds the exact value to the
  nearest tenth, ties to the even tenth, and never uses an exponent; the other floats
  are printed by name.
\<close>

definition round_half_even :: "rat \<Rightarrow> int" where
  "round_half_even q =
     (let f = \<lfloor>q\<rfloor>; r = q - of_int f in
      if r < 1 / 2 then f
      else if 1 / 2 < r then f + 1
      else if even f then f else f + 1)"

definition format_1f :: "rat \<Rightarrow> string" where
  "format_1f a =
     (let t = nat (round_half_even (\<bar>a\<bar> * 10)) in
      (if a < 0 then ''-'' else '''') @ str_nat (t div 10) @ ''.'' @ str_nat (t mod 10))"

fun py_format_1f :: "py_float \<Rightarrow> string" where
  "py_format_1f (Finite q) = format_1f q"
| "py_format_1f PosInf = ''inf''"
| "py_format_1f NegInf = ''-inf''"
| "py_format_1f NaN = ''nan''"

subsection \<open>Reading numerals\<close>

text \<open>
  What a printed number denotes, independently of how the formats above produce it.
  \<open>read_nat\<close> accepts exactly the decimal numerals without a leading zero (and
  \<open>0\<close> itself); \<open>read_int\<close> those and their negatives; \<open>read_1f\<close> a numeral with exactly
  one decimal place, \<open>d...d.d\<close>, and gives the number of tenths it denotes.
\<close>

definition digit_val :: "char \<Rightarrow> nat option" where
  "digit_val c =
     map_of [(CHR ''0'', 0), (CHR ''1'', 1), (CHR ''2'', 2), (CHR ''3'', 3), (CHR ''4'', 4),
             (CHR ''5'', 5), (CHR ''6'', 6), (CHR ''7'', 7), (CHR ''8'', 8), (CHR ''9'', 9)] c"

fun read_digits :: "string \<Rightarrow> nat \<Rightarrow> nat option" where
  "read_digits [] acc = Some acc"
| "read_digits (c # cs) acc =
     (case digit_val c of
        None \<Rightarrow> None
      | Some d \<Rightarrow> read_digits cs (10 * acc + d))"

definition read_nat :: "string \<Rightarrow> nat option" where
  "read_nat s =
     (if s = [] \<or> (hd s = CHR ''0'' \<and> 1 < length s) then None else read_digits s 0)"

definition read_int :: "string \<Rightarrow> int option" where
  "read_int s =
     (case s of
        [] \<Rightarrow> None
      | c # r \<Rightarrow>
          if c = CHR ''-''
          then (case read_nat r of
                  None \<Rightarrow> None
                | Some n \<Rightarrow> if n = 0 then None else Some (- int n))
          else map_option int (read_nat s))"

definition read_1f :: "string \<Rightarrow> nat option" where
  "read_1f s =
     (case rev s of
        d # dot # rip \<Rightarrow>
          if dot = CHR ''.''
          then (case (read_nat (rev rip), digit_val d) of
                  (Some a, Some b) \<Rightarrow> Some (10 * a + b)
                | _ \<Rightarrow> None)
          else None
      | _ \<Rightarrow> None)"

section \<open>translator.py\<close>

subsection \<open>Model instances and the ensemble checks\<close>

text \<open>
  What \<open>Translator\<close> reads of a model instance: the capability flag, the size of the
  target vocabulary, and \<open>opts.train['eval_filters']\<close>, a comma separated string of
  filter names (the empty string when no filter is configured).
\<close>

record model_instance =
  supports_beam_search :: bool
  n_trg_vocab :: int
  eval_filters :: string

text \<open>The first \<open>assert\<close> of \<open>sanity_check\<close> (lines 86-87).\<close>

definition check_eval_filters :: "model_instance list \<Rightarrow> py_error + unit" where
  "check_eval_filters instances =
     (let eval_filters_set = set (map eval_filters instances) in
      if card eval_filters_set < 2 then Inr ()
      else Inl (AssertionError ''eval_filters differ between instances.''))"

text \<open>The second \<open>assert\<close> of \<open>sanity_check\<close> (lines 89-90).\<close>

definition check_n_trg_vocab :: "model_instance list \<Rightarrow> py_error + unit" where
  "check_n_trg_vocab instances =
     (let n_trg_vocab_set = set (map n_trg_vocab instances) in
      if card n_trg_vocab_set = 1 then Inr ()
      else Inl (AssertionError ''target vocabularies differ.''))"

definition sanity_check :: "model_instance list \<Rightarrow> py_error + unit" where
  "sanity_check instances =
     (case check_eval_filters instances of
        Inl e \<Rightarrow> Inl e
      | Inr _ \<Rightarrow> check_n_trg_vocab instances)"

text \<open>
  The words of the specification about the two checks, as predicates of their own:
  the filters a configuration string names, as an unordered set, and agreement of all
  members on a reported value.
\<close>

definition filter_set :: "string \<Rightarrow> string set" where
  "filter_set cfg = set (py_split CHR '','' cfg)"

definition same_filter_sets :: "model_instance list \<Rightarrow> bool" where
  "same_filter_sets instances =
     list_all (\<lambda>i. list_all (\<lambda>j. filter_set (eval_filters i) = filter_set (eval_filters j)) instances)
       instances"

text \<open>All members declare the very same configuration string.\<close>

definition same_eval_filters :: "model_instance list \<Rightarrow> bool" where
  "same_eval_filters instances =
     list_all (\<lambda>i. list_all (\<lambda>j. eval_filters i = eval_filters j) instances) instances"

definition same_n_trg_vocab :: "model_instance list \<Rightarrow> bool" where
  "same_n_trg_vocab instances =
     list_all (\<lambda>i. list_all (\<lambda>j. n_trg_vocab i = n_trg_vocab j) instances) instances"

definition differing_n_trg_vocab :: "model_instance list \<Rightarrow> bool" where
  "differing_n_trg_vocab instances =
     list_ex (\<lambda>i. list_ex (\<lambda>j. n_trg_vocab i \<noteq> n_trg_vocab j) instances) instances"

subsection \<open>The constructor's arguments, the object and its collaborators\<close>

text \<open>
  The keyword arguments \<open>Translator(**kwargs)\<close> receives from the command line.
  \<open>None\<close> is \<open>None\<close> of Python for the two optional strings.
\<close>

record kwargs =
  kw_models :: "string list"
  kw_disable_filters :: bool
  kw_splits :: "string option"
  kw_source :: "string option"
  kw_output :: string
  kw_lp_alpha :: py_float
  kw_beam_size :: int
  kw_batch_size :: int
  kw_max_len :: int

text \<open>Truth value of an optional string: \<open>None\<close> and the empty string are false.\<close>

definition truthy :: "string option \<Rightarrow> bool" where
  "truthy v = (case v of None \<Rightarrow> False | Some s \<Rightarrow> s \<noteq> [])"

text \<open>\<open>pathlib.Path(p)\<close>, kept as the object built from its argument.\<close>

datatype path = Path string

text \<open>\<open>self.splits\<close> changes its type during construction: the raw argument, then a list.\<close>

datatype py_splits = SplitsNone | SplitsStr string | SplitsList "string list"

record translator =
  models :: "string list"
  disable_filters :: bool
  splits :: py_splits
  source :: "string option"
  output' :: string
  lp_alpha :: py_float
  beam_size :: int
  batch_size :: int
  max_len :: int
  n_models :: nat
  instances :: "model_instance list"
  filter_fn :: "string list \<Rightarrow> string list"
  new_set :: "(string \<rightharpoonup> path) option"

text \<open>
  Code that \<open>translator.py\<close> calls and that lives elsewhere is a parameter:
  \<open>load_instance\<close> is lines 36-39 (\<open>load_pt_file\<close>, \<open>Options.from_dict\<close> and the model
  class looked up by name), which may raise; \<open>weights_fit\<close> says whether
  \<open>load_state_dict(weights, strict=True)\<close> accepts the stored weights; \<open>FilterChain\<close>
  builds the post-processing function of a configuration; \<open>beam_search\<close> decodes a split
  (the loader is determined by the split and the batch size).
\<close>

record env =
  load_instance :: "string \<Rightarrow> py_error + model_instance"
  weights_fit :: "string \<Rightarrow> bool"
  FilterChain :: "string \<Rightarrow> string list \<Rightarrow> string list"
  beam_search :: "model_instance list \<Rightarrow> string \<Rightarrow> int \<Rightarrow> int \<Rightarrow> int \<Rightarrow> py_float \<Rightarrow> string list"

text \<open>
  What a run does to the outside, in order. \<open>Created k i\<close>: the \<open>k\<close>-th model file was
  read and the instance \<open>i\<close> built from it; then the calls on that instance;
  \<open>LoadData\<close> and \<open>BeamSearch\<close> are the decoding work on a split; \<open>WriteFile\<close> is the
  output file being opened for writing.
\<close>

datatype event =
    Created nat model_instance
  | LogError string
  | Setup nat
  | LoadStateDict nat
  | Cuda nat
  | TrainFalse nat
  | LoadData string
  | BeamSearch string
  | WriteFile string

text \<open>The instance an event is about, and the events that are decoding or writing.\<close>

fun instance_of :: "event \<Rightarrow> nat option" where
  "instance_of (Created k i) = Some k"
| "instance_of (Setup k) = Some k"
| "instance_of (LoadStateDict k) = Some k"
| "instance_of (Cuda k) = Some k"
| "instance_of (TrainFalse k) = Some k"
| "instance_of e = None"

fun is_decoding :: "event \<Rightarrow> bool" where
  "is_decoding (LoadData s) = True"
| "is_decoding (BeamSearch s) = True"
| "is_decoding (WriteFile p) = True"
| "is_decoding e = False"

text \<open>All events about instances in a trace concern instances from \<open>n\<close> on, or before \<open>n\<close>.\<close>

definition idx_ge :: "nat \<Rightarrow> event list \<Rightarrow> bool" where
  "idx_ge n evs = list_all (\<lambda>e. case instance_of e of None \<Rightarrow> True | Some j \<Rightarrow> n \<le> j) evs"

definition idx_lt :: "nat \<Rightarrow> event list \<Rightarrow> bool" where
  "idx_lt n evs = list_all (\<lambda>e. case instance_of e of None \<Rightarrow> True | Some j \<Rightarrow> j < n) evs"

record world =
  trace :: "event list"
  files :: "string \<rightharpoonup> string"

subsection \<open>Translator.__init__\<close>

text \<open>The loop over \<open>self.models\<close> (lines 35-54); \<open>insts\<close> is \<open>self.instances\<close> so far.\<close>

fun load_models ::
  "env \<Rightarrow> string list \<Rightarrow> model_instance list \<Rightarrow> event list \<Rightarrow> event list \<times> (stop + model_instance list)"
where
  "load_models E [] insts tr = (tr, Inr insts)"
| "load_models E (model_file # rest) insts tr =
     (case load_instance E model_file of
        Inl e \<Rightarrow> (tr, Inl (Raised e))
      | Inr inst \<Rightarrow>
          let k = length insts; tr1 = tr @ [Created k inst] in
          if \<not> supports_beam_search inst
          then (tr1 @ [LogError ''Model does not support beam search. Try 'nmtpy test' ''],
                Inl (SystemExit 1))
          else if \<not> weights_fit E model_file
          then (tr1 @ [Setup k], Inl (Raised RuntimeError))
          else load_models E rest (insts @ [inst])
                 (tr1 @ [Setup k, LoadStateDict k, Cuda k, TrainFalse k]))"

text \<open>Lines 60-67: the filter is chosen once, from the first instance.\<close>

definition setup_filter ::
  "env \<Rightarrow> bool \<Rightarrow> model_instance list \<Rightarrow> py_error + (string list \<Rightarrow> string list)"
where
  "setup_filter E disable insts =
     (case insts of
        [] \<Rightarrow> Inl IndexError
      | i0 # _ \<Rightarrow>
          let eval_filters0 = eval_filters i0 in
          if disable \<or> eval_filters0 = [] then Inr (\<lambda>s. s)
          else Inr (FilterChain E eval_filters0))"

text \<open>Lines 77-80: the loop that fills \<open>input_dict\<close>.\<close>

fun parse_source :: "string list \<Rightarrow> (string \<rightharpoonup> path) \<Rightarrow> py_error + (string \<rightharpoonup> path)" where
  "parse_source [] input_dict = Inr input_dict"
| "parse_source (data_source # rest) input_dict =
     (case py_split1 CHR '':'' data_source of
        [key, p] \<Rightarrow> parse_source rest (input_dict(key \<mapsto> Path p))
      | _ \<Rightarrow> Inl ValueError)"

text \<open>
  The words of the specification for one entry of the mapping: cut at its first colon
  into a key and a path.
\<close>

definition key_path :: "string \<Rightarrow> string \<times> path" where
  "key_path e =
     (takeWhile (\<lambda>c. c \<noteq> CHR '':'') e, Path (tl (dropWhile (\<lambda>c. c \<noteq> CHR '':'') e)))"

text \<open>Lines 70-82: the new value of \<open>self.splits\<close> and of \<open>opts.data['new_set']\<close>.\<close>

definition setup_splits ::
  "string option \<Rightarrow> string option \<Rightarrow> py_error + (py_splits \<times> (string \<rightharpoonup> path) option)"
where
  "setup_splits sp src =
     (case sp of
        Some s \<Rightarrow>
          if s \<noteq> [] then Inr (SplitsList (py_split CHR '','' s), None)
          else (case src of
                  Some m \<Rightarrow>
                    if m \<noteq> [] then
                      (case parse_source (py_split CHR '','' m) Map.empty of
                         Inl e \<Rightarrow> Inl e
                       | Inr input_dict \<Rightarrow> Inr (SplitsList [''new''], Some input_dict))
                    else Inr (SplitsStr s, None)
                | None \<Rightarrow> Inr (SplitsStr s, None))
      | None \<Rightarrow>
          (case src of
             Some m \<Rightarrow>
               if m \<noteq> [] then
                 (case parse_source (py_split CHR '','' m) Map.empty of
                    Inl e \<Rightarrow> Inl e
                  | Inr input_dict \<Rightarrow> Inr (SplitsList [''new''], Some input_dict))
               else Inr (SplitsNone, None)
           | None \<Rightarrow> Inr (SplitsNone, None)))"

definition translator_init :: "env \<Rightarrow> kwargs \<Rightarrow> event list \<times> (stop + translator)" where
  "translator_init E kw =
     (case load_models E (kw_models kw) [] [] of
        (tr, Inl s) \<Rightarrow> (tr, Inl s)
      | (tr, Inr insts) \<Rightarrow>
          (case sanity_check insts of
             Inl e \<Rightarrow> (tr, Inl (Raised e))
           | Inr _ \<Rightarrow>
               (case setup_filter E (kw_disable_filters kw) insts of
                  Inl e \<Rightarrow> (tr, Inl (Raised e))
                | Inr f \<Rightarrow>
                    (case setup_splits (kw_splits kw) (kw_source kw) of
                       Inl e \<Rightarrow> (tr, Inl (Raised e))
                     | Inr (sp, ns) \<Rightarrow>
                         (tr, Inr \<lparr>models = kw_models kw,
                                   disable_filters = kw_disable_filters kw,
                                   splits = sp,
                                   source = kw_source kw,
                                   output' = kw_output kw,
                                   lp_alpha = kw_lp_alpha kw,
                                   beam_size = kw_beam_size kw,
                                   batch_size = kw_batch_size kw,
                                   max_len = kw_max_len kw,
                                   n_models = length (kw_models kw),
                                   instances = insts,
                                   filter_fn = f,
                                   new_set = ns\<rparr>)))))"

subsection \<open>Translator.translate, Translator.dump and Translator.__call__\<close>

definition translate ::
  "env \<Rightarrow> translator \<Rightarrow> string \<Rightarrow> event list \<Rightarrow> event list \<times> (py_error + string list)"
where
  "translate E self split tr =
     (case instances self of
        [] \<Rightarrow> (tr, Inl IndexError)
      | i0 # _ \<Rightarrow>
          let tr1 = tr @ [LoadData split, BeamSearch split];
              hyps = beam_search E (instances self) split (batch_size self)
                       (beam_size self) (max_len self) (lp_alpha self)
          in (tr1, Inr (filter_fn self hyps)))"

text \<open>Lines 131-136.\<close>

definition dump_suffix :: "translator \<Rightarrow> string" where
  "dump_suffix self =
     (let suffix = [];
          suffix = (if float_pos (lp_alpha self)
                    then suffix @ ''.lp_'' @ py_format_1f (lp_alpha self)
                    else suffix);
          suffix = (if 1 < n_models self then suffix @ ''.ens'' @ str_nat (n_models self)
                    else suffix)
      in suffix @ ''.beam'' @ str_int (beam_size self))"

text \<open>Lines 138-141.\<close>

definition dump_output :: "translator \<Rightarrow> string \<Rightarrow> string" where
  "dump_output self split =
     (if split = ''new'' then output' self @ dump_suffix self
      else output' self @ ''.'' @ split @ dump_suffix self)"

text \<open>Lines 144-145: each \<open>f.write(line + '\n')\<close> appends to what the file holds.\<close>

fun write_lines :: "string list \<Rightarrow> string \<Rightarrow> string" where
  "write_lines [] content = content"
| "write_lines (line # rest) content = write_lines rest (content @ line @ [CHR 0x0A])"

text \<open>\<open>open(output, 'w')\<close> starts from an empty file, whatever the path held.\<close>

definition dump :: "translator \<Rightarrow> string list \<Rightarrow> string \<Rightarrow> world \<Rightarrow> world" where
  "dump self hyps split w =
     (let out = dump_output self split in
      w\<lparr>trace := trace w @ [WriteFile out],
        files := (files w)(out \<mapsto> write_lines hyps [])\<rparr>)"

fun call_loop :: "env \<Rightarrow> translator \<Rightarrow> string list \<Rightarrow> world \<Rightarrow> world \<times> stop option" where
  "call_loop E self [] w = (w, None)"
| "call_loop E self (input # rest) w =
     (case translate E self input (trace w) of
        (tr, Inl e) \<Rightarrow> (w\<lparr>trace := tr\<rparr>, Some (Raised e))
      | (tr, Inr hyps) \<Rightarrow> call_loop E self rest (dump self hyps input (w\<lparr>trace := tr\<rparr>)))"

text \<open>Iterating \<open>None\<close> raises; iterating a string yields its characters.\<close>

definition call :: "env \<Rightarrow> translator \<Rightarrow> world \<Rightarrow> world \<times> stop option" where
  "call E self w =
     (case splits self of
        SplitsNone \<Rightarrow> (w, Some (Raised TypeError))
      | SplitsStr s \<Rightarrow> call_loop E self (map (\<lambda>c. [c]) s) w
      | SplitsList l \<Rightarrow> call_loop E self l w)"

text \<open>A whole run, \<open>Translator(**kwargs)()\<close>, from a file system \<open>fs\<close>.\<close>

definition run :: "env \<Rightarrow> kwargs \<Rightarrow> (string \<rightharpoonup> string) \<Rightarrow> world \<times> stop option" where
  "run E kw fs =
     (case translator_init E kw of
        (tr, Inl s) \<Rightarrow> (\<lparr>trace = tr, files = fs\<rparr>, Some s)
      | (tr, Inr self) \<Rightarrow> call E self \<lparr>trace = tr, files = fs\<rparr>)"

section \<open>datasets/multilabelmulti30k.py\<close>

text \<open>
  A \<open>DataSource\<close> of the topology, with the \<open>_type\<close> the constructor reads. The two
  dictionaries of a \<open>Topology\<close> keep their insertion order, which is the order of
  iteration, so they are association lists.
\<close>

record DataSource =
  ds_name :: string
  ds_type :: string

record Topology =
  srcs :: "(string \<times> DataSource) list"
  trgs :: "(string \<times> DataSource) list"

type_synonym vocabulary = "string list"

text \<open>The two dataset classes the constructor instantiates, as the calls it makes.\<close>

datatype dataset =
    ImageFolderDataset string int int int bool
  | OneHotDataset string vocabulary

text \<open>The optional arguments \<open>warmup\<close>, \<open>resize\<close>, \<open>crop\<close> and \<open>replicate\<close>.\<close>

record options =
  warmup :: bool
  resize :: int
  crop :: int
  replicate :: int

text \<open>
  \<open>MultiParallelDataset\<close> is defined elsewhere: the object is the two dictionaries it
  was built from and the attributes \<open>sources\<close> and \<open>data_sources\<close> that
  \<open>get_iterator\<close> reads. The constructor of \<open>MultiLabelMulti30kDataset\<close> below takes
  the constructor of this class as a parameter.
\<close>

record MultiParallelDataset =
  src_datasets :: "(DataSource \<times> dataset) list"
  trg_datasets :: "(DataSource \<times> dataset) list"
  sources :: "DataSource list"
  data_sources :: "DataSource list"

record MultiLabelMulti30kDataset =
  topology :: Topology
  dataset :: MultiParallelDataset

text \<open>
  Modelled from the spec: the constructor of \<open>MultiParallelDataset\<close>
  (\<open>datasets/__init__.py\<close>, not among the source files). Section 6 of the specification
  and the docstring of \<open>get_iterator\<close> tell the source side, which a batch for inference
  holds, from the target side, which it must not hold: \<open>sources\<close> is the keys of
  \<open>src_datasets\<close>, in their order, and \<open>data_sources\<close> is those keys followed by the
  keys of \<open>trg_datasets\<close>.
\<close>

definition MultiParallelDataset_init ::
  "(DataSource \<times> dataset) list \<Rightarrow> (DataSource \<times> dataset) list \<Rightarrow> MultiParallelDataset"
where
  "MultiParallelDataset_init sd td =
     \<lparr>src_datasets = sd, trg_datasets = td,
      sources = map fst sd, data_sources = map fst sd @ map fst td\<rparr>"

text \<open>\<open>del d[k]\<close>: raises when the key is absent.\<close>

definition dict_del :: "('k \<times> 'v) list \<Rightarrow> 'k \<Rightarrow> py_error + ('k \<times> 'v) list" where
  "dict_del d k = (if k \<in> fst ` set d then Inr (AList.delete k d) else Inl KeyError)"

text \<open>
  Lines 32-40. The loop runs over a copy of \<open>topology.srcs\<close> taken before it starts and
  deletes from the caller's object; the state is that object and the local \<open>data\<close>.
  The second component of the result is the exception that ended the loop, if any.
\<close>

fun srcs_loop ::
  "(string \<times> DataSource) list \<Rightarrow> (string \<rightharpoonup> string) \<Rightarrow> options \<Rightarrow>
   Topology \<times> (string \<rightharpoonup> dataset) \<Rightarrow> (Topology \<times> (string \<rightharpoonup> dataset)) \<times> py_error option"
where
  "srcs_loop [] data_dict opt (topo, data) = ((topo, data), None)"
| "srcs_loop ((src, ds) # rest) data_dict opt (topo, data) =
     (case data_dict src of
        None \<Rightarrow>
          (case dict_del (srcs topo) src of
             Inl e \<Rightarrow> ((topo, data), Some e)
           | Inr srcs' \<Rightarrow> srcs_loop rest data_dict opt (topo\<lparr>srcs := srcs'\<rparr>, data))
      | Some p \<Rightarrow>
          if ds_type ds = ''ImageFolder''
          then srcs_loop rest data_dict opt
                 (topo, data(src \<mapsto> ImageFolderDataset p (resize opt) (crop opt) (replicate opt) (warmup opt)))
          else srcs_loop rest data_dict opt (topo, data))"

text \<open>Lines 42-48.\<close>

fun trgs_loop ::
  "(string \<times> DataSource) list \<Rightarrow> (string \<rightharpoonup> string) \<Rightarrow> (string \<rightharpoonup> vocabulary) \<Rightarrow>
   Topology \<times> (string \<rightharpoonup> dataset) \<Rightarrow> (Topology \<times> (string \<rightharpoonup> dataset)) \<times> py_error option"
where
  "trgs_loop [] data_dict vocabs (topo, data) = ((topo, data), None)"
| "trgs_loop ((trg, ds) # rest) data_dict vocabs (topo, data) =
     (case data_dict trg of
        None \<Rightarrow>
          (case dict_del (trgs topo) trg of
             Inl e \<Rightarrow> ((topo, data), Some e)
           | Inr trgs' \<Rightarrow> trgs_loop rest data_dict vocabs (topo\<lparr>trgs := trgs'\<rparr>, data))
      | Some p \<Rightarrow>
          (case vocabs trg of
             None \<Rightarrow> ((topo, data), Some KeyError)
           | Some v \<Rightarrow> trgs_loop rest data_dict vocabs (topo, data(trg \<mapsto> OneHotDataset p v))))"

text \<open>Lines 52 and 53: \<open>{v: data[k] for k, v in d.items()}\<close>.\<close>

fun collect_datasets ::
  "(string \<times> DataSource) list \<Rightarrow> (string \<rightharpoonup> dataset) \<Rightarrow> (DataSource \<times> dataset) list \<Rightarrow>
   py_error + (DataSource \<times> dataset) list"
where
  "collect_datasets [] data acc = Inr acc"
| "collect_datasets ((k, v) # rest) data acc =
     (case data k of
        None \<Rightarrow> Inl KeyError
      | Some d \<Rightarrow> collect_datasets rest data (AList.update v d acc))"

text \<open>
  The constructor. \<open>self.topology\<close> is the caller's object, so the first component of
  the result is what the caller's topology holds afterwards, whether the constructor
  returned or raised.
\<close>

definition dataset_init ::
  "((DataSource \<times> dataset) list \<Rightarrow> (DataSource \<times> dataset) list \<Rightarrow> MultiParallelDataset) \<Rightarrow>
   (string \<rightharpoonup> string) \<Rightarrow> (string \<rightharpoonup> vocabulary) \<Rightarrow> Topology \<Rightarrow> options \<Rightarrow>
   Topology \<times> (py_error + MultiLabelMulti30kDataset)"
where
  "dataset_init mk_dataset data_dict vocabs topo opt =
     (case srcs_loop (srcs topo) data_dict opt (topo, Map.empty) of
        ((topo1, data1), Some e) \<Rightarrow> (topo1, Inl e)
      | ((topo1, data1), None) \<Rightarrow>
          (case trgs_loop (trgs topo1) data_dict vocabs (topo1, data1) of
             ((topo2, data2), Some e) \<Rightarrow> (topo2, Inl e)
           | ((topo2, data2), None) \<Rightarrow>
               (case collect_datasets (srcs topo2) data2 [] of
                  Inl e \<Rightarrow> (topo2, Inl e)
                | Inr sd \<Rightarrow>
                    (case collect_datasets (trgs topo2) data2 [] of
                       Inl e \<Rightarrow> (topo2, Inl e)
                     | Inr td \<Rightarrow>
                         (topo2, Inr \<lparr>topology = topo2, dataset = mk_dataset sd td\<rparr>)))))"

text \<open>
  Modelled from the spec: the loader, \<open>torch.utils.data.DataLoader\<close> with the collate
  function of \<open>get_collate\<close> (\<open>datasets/collate.py\<close>, not among the source files). The
  loader is the arguments it was built with, the collate function being the keys it was
  made for; its constructor refuses a batch size that is not positive. Section 1 of the
  specification asks for an iterable of batches with deterministic ordering when not
  shuffled, and section 6 for a flag for no shuffling so that the original order is
  recoverable: iterated over a dataset of \<open>n\<close> examples, the loader takes the examples
  in their original order when it does not shuffle, and in the order \<open>perm\<close> its
  sampler drew when it does, \<open>batch_size\<close> at a time. A batch is the indices of its
  examples and the keys whose data it holds.
\<close>

record DataLoader =
  dl_dataset :: MultiParallelDataset
  shuffle :: bool
  dl_batch_size :: int
  collate_keys :: "DataSource list"

text \<open>
  Modelled from the spec: the constructor of the loader (library code), which raises for
  a batch size that is not positive.
\<close>

definition DataLoader_init ::
  "MultiParallelDataset \<Rightarrow> bool \<Rightarrow> int \<Rightarrow> DataSource list \<Rightarrow> py_error + DataLoader"
where
  "DataLoader_init ds shuffle' batch_size' keys =
     (if batch_size' \<le> 0 then Inl ValueError
      else Inr \<lparr>dl_dataset = ds, shuffle = shuffle', dl_batch_size = batch_size',
                collate_keys = keys\<rparr>)"

text \<open>
  Modelled from the spec: iteration of the loader (library code). \<open>chunks n xs\<close> cuts
  \<open>xs\<close> into consecutive pieces of \<open>n\<close> elements, the last one possibly shorter;
  \<open>batches L n perm\<close> is what the loader \<open>L\<close> yields over \<open>n\<close> examples.
\<close>

fun chunks :: "nat \<Rightarrow> 'a list \<Rightarrow> 'a list list" where
  "chunks n xs = (if n = 0 \<or> xs = [] then [] else take n xs # chunks n (drop n xs))"

declare chunks.simps [simp del]

definition batches :: "DataLoader \<Rightarrow> nat \<Rightarrow> nat list \<Rightarrow> (nat list \<times> DataSource list) list" where
  "batches L n perm =
     map (\<lambda>idx. (idx, collate_keys L))
       (chunks (nat (dl_batch_size L)) (if shuffle L then perm else [0..<n]))"

text \<open>Lines 66-69.\<close>

definition get_iterator ::
  "MultiLabelMulti30kDataset \<Rightarrow> int \<Rightarrow> bool \<Rightarrow> bool \<Rightarrow> py_error + DataLoader"
where
  "get_iterator self batch_size' drop_targets inference =
     (let keys = (if drop_targets then sources (dataset self) else data_sources (dataset self)) in
      DataLoader_init (dataset self) (\<not> inference) batch_size' keys)"

section \<open>Concrete inputs\<close>

text \<open>Three ensembles of two members: the same two filters in different order; different
  vocabulary sizes; and two members that agree on everything.\<close>

definition ens_reordered :: "model_instance list" where
  "ens_reordered =
     [\<lparr>supports_beam_search = True, n_trg_vocab = 100, eval_filters = ''de-bpe,lower''\<rparr>,
      \<lparr>supports_beam_search = True, n_trg_vocab = 100, eval_filters = ''lower,de-bpe''\<rparr>]"

definition ens_vocab_mismatch :: "model_instance list" where
  "ens_vocab_mismatch =
     [\<lparr>supports_beam_search = True, n_trg_vocab = 100, eval_filters = ''de-bpe''\<rparr>,
      \<lparr>supports_beam_search = True, n_trg_vocab = 200, eval_filters = ''de-bpe''\<rparr>]"

definition ens_matching :: "model_instance list" where
  "ens_matching =
     [\<lparr>supports_beam_search = True, n_trg_vocab = 100, eval_filters = ''de-bpe''\<rparr>,
      \<lparr>supports_beam_search = True, n_trg_vocab = 100, eval_filters = ''de-bpe''\<rparr>]"

text \<open>
  Collaborators for the runs below: three checkpoints, of which \<open>lm.ckpt\<close> holds a
  model without beam search; a filter chain that changes every hypothesis; a decoder
  that returns two hypotheses.
\<close>

definition env0 :: env where
  "env0 =
     \<lparr>load_instance = (\<lambda>f.
        if f = ''rnn.ckpt''
        then Inr \<lparr>supports_beam_search = True, n_trg_vocab = 100, eval_filters = ''de-bpe''\<rparr>
        else if f = ''lm.ckpt''
        then Inr \<lparr>supports_beam_search = False, n_trg_vocab = 100, eval_filters = ''de-bpe''\<rparr>
        else if f = ''plain.ckpt''
        then Inr \<lparr>supports_beam_search = True, n_trg_vocab = 100, eval_filters = []\<rparr>
        else Inl RuntimeError),
      weights_fit = (\<lambda>f. True),
      FilterChain = (\<lambda>cfg hyps. map (\<lambda>h. h @ ''.'') hyps),
      beam_search = (\<lambda>insts split bs k l a. [''ein hund'', ''zwei katzen''])\<rparr>"

definition kw0 :: kwargs where
  "kw0 =
     \<lparr>kw_models = [''rnn.ckpt''],
      kw_disable_filters = False,
      kw_splits = None,
      kw_source = Some ''en:/data/test.en,image:/data/feats:v2.npy'',
      kw_output = ''out'',
      kw_lp_alpha = Finite 0,
      kw_beam_size = 4,
      kw_batch_size = 16,
      kw_max_len = 100\<rparr>"

text \<open>Variants of the arguments: an ensemble whose second member cannot be beam-searched;
  post-processing disabled; a single model that declares no filters.\<close>

definition kw_ens :: kwargs where
  "kw_ens = kw0\<lparr>kw_models := [''rnn.ckpt'', ''lm.ckpt'', ''plain.ckpt''], kw_splits := Some ''test''\<rparr>"

definition kw_disabled :: kwargs where
  "kw_disabled = kw0\<lparr>kw_disable_filters := True\<rparr>"

definition kw_plain :: kwargs where
  "kw_plain = kw0\<lparr>kw_models := [''plain.ckpt'']\<rparr>"

text \<open>A source mapping whose second entry has no colon.\<close>

definition kw_malformed :: kwargs where
  "kw_malformed = kw0\<lparr>kw_source := Some ''en:/data/test.en,feats.npy''\<rparr>"

text \<open>
  A topology with an image source and a text source, a translation target and a label
  target, and a test-time \<open>data_dict\<close> that provides only the images and the labels.
\<close>

definition topo0 :: Topology where
  "topo0 =
     \<lparr>srcs = [(''image'', \<lparr>ds_name = ''image'', ds_type = ''ImageFolder''\<rparr>),
              (''en'', \<lparr>ds_name = ''en'', ds_type = ''Text''\<rparr>)],
      trgs = [(''de'', \<lparr>ds_name = ''de'', ds_type = ''Text''\<rparr>),
              (''label'', \<lparr>ds_name = ''label'', ds_type = ''OneHot''\<rparr>)]\<rparr>"

definition data_dict0 :: "string \<rightharpoonup> string" where
  "data_dict0 = [''image'' \<mapsto> ''/data/images'', ''label'' \<mapsto> ''/data/labels.txt'']"

definition vocabs0 :: "string \<rightharpoonup> vocabulary" where
  "vocabs0 = [''label'' \<mapsto> [''dog'', ''cat'']]"

definition options0 :: options where
  "options0 = \<lparr>warmup = False, resize = 256, crop = 224, replicate = 1\<rparr>"

definition mk_dataset0 ::
  "(DataSource \<times> dataset) list \<Rightarrow> (DataSource \<times> dataset) list \<Rightarrow> MultiParallelDataset" where
  "mk_dataset0 sd td =
     \<lparr>src_datasets = sd, trg_datasets = td,
      sources = map fst sd, data_sources = map fst sd @ map fst td\<rparr>"

text \<open>A translator object with one model, beam width 4 and no length penalty.\<close>

definition translator0 :: translator where
  "translator0 =
     \<lparr>models = [''rnn.ckpt''],
      disable_filters = False,
      splits = SplitsList [''new''],
      source = None,
      output' = ''out'',
      lp_alpha = Finite 0,
      beam_size = 4,
      batch_size = 16,
      max_len = 100,
      n_models = 1,
      instances = [\<lparr>supports_beam_search = True, n_trg_vocab = 100, eval_filters = ''de-bpe''\<rparr>],
      filter_fn = (\<lambda>s. s),
      new_set = None\<rparr>"

section \<open>The ensemble checks\<close>

lemma card_image_lt_2_iff:
  "card (f ` set xs) < 2 \<longleftrightarrow> (\<forall>x\<in>set xs. \<forall>y\<in>set xs. f x = f y)"
proof -
  have "card (f ` set xs) < 2 \<longleftrightarrow> card (f ` set xs) \<le> Suc 0" by arith
  also have "\<dots> \<longleftrightarrow> (\<forall>a\<in>f ` set xs. \<forall>b\<in>f ` set xs. a = b)"
    by (rule card_le_Suc0_iff_eq) simp
  also have "\<dots> \<longleftrightarrow> (\<forall>x\<in>set xs. \<forall>y\<in>set xs. f x = f y)" by blast
  finally show ?thesis .
qed

lemma card_image_eq_1_iff:
  "card (f ` set xs) = Suc 0 \<longleftrightarrow> xs \<noteq> [] \<and> (\<forall>x\<in>set xs. \<forall>y\<in>set xs. f x = f y)"
proof -
  have "card (f ` set xs) = Suc 0 \<longleftrightarrow> card (f ` set xs) < 2 \<and> card (f ` set xs) \<noteq> 0"
    by arith
  also have "\<dots> \<longleftrightarrow> xs \<noteq> [] \<and> (\<forall>x\<in>set xs. \<forall>y\<in>set xs. f x = f y)"
    by (auto simp: card_image_lt_2_iff)
  finally show ?thesis .
qed

lemma check_n_trg_vocab_iff:
  "check_n_trg_vocab insts = Inr () \<longleftrightarrow> insts \<noteq> [] \<and> same_n_trg_vocab insts"
proof -
  have "check_n_trg_vocab insts = Inr () \<longleftrightarrow> card (n_trg_vocab ` set insts) = Suc 0"
    by (simp add: check_n_trg_vocab_def)
  also have "\<dots> \<longleftrightarrow>
      insts \<noteq> [] \<and> (\<forall>x\<in>set insts. \<forall>y\<in>set insts. n_trg_vocab x = n_trg_vocab y)"
    by (rule card_image_eq_1_iff)
  also have "\<dots> \<longleftrightarrow> insts \<noteq> [] \<and> same_n_trg_vocab insts"
    by (simp only: same_n_trg_vocab_def list_all_iff)
  finally show ?thesis .
qed

lemma check_eval_filters_iff:
  "check_eval_filters insts = Inr () \<longleftrightarrow> same_eval_filters insts"
proof -
  have "check_eval_filters insts = Inr () \<longleftrightarrow> card (eval_filters ` set insts) < 2"
    by (simp add: check_eval_filters_def)
  also have "\<dots> \<longleftrightarrow> (\<forall>x\<in>set insts. \<forall>y\<in>set insts. eval_filters x = eval_filters y)"
    by (rule card_image_lt_2_iff)
  also have "\<dots> \<longleftrightarrow> same_eval_filters insts"
    by (simp only: same_eval_filters_def list_all_iff)
  finally show ?thesis .
qed

lemma differing_iff: "differing_n_trg_vocab insts \<longleftrightarrow> \<not> same_n_trg_vocab insts"
  unfolding differing_n_trg_vocab_def same_n_trg_vocab_def list_all_iff list_ex_iff by blast

lemma check_n_trg_vocab_cases:
  "check_n_trg_vocab insts = Inr () \<or>
   check_n_trg_vocab insts = Inl (AssertionError ''target vocabularies differ.'')"
  by (simp add: check_n_trg_vocab_def)

lemma check_eval_filters_cases:
  "check_eval_filters insts = Inr () \<or>
   check_eval_filters insts = Inl (AssertionError ''eval_filters differ between instances.'')"
  by (simp add: check_eval_filters_def)

text \<open>
  Claim C1, as stated, promises that the vocabulary check raises nothing whenever all
  members report the same size. The ensemble without members satisfies that condition
  and the check raises on it: the set of sizes is empty, and the assertion asks for
  exactly one element.
\<close>

theorem vocab_check_empty_counterexample:
  "same_n_trg_vocab [] \<and> check_n_trg_vocab [] \<noteq> Inr ()"
  by (simp add: same_n_trg_vocab_def check_n_trg_vocab_def)

text \<open>
  Claim C1, amended: when two members of an ensemble report different target-vocabulary
  sizes, the vocabulary assertion fails and \<open>sanity_check\<close> raises an assertion error;
  when the ensemble has at least one member and all members report the same size, the
  vocabulary assertion raises nothing.
\<close>

theorem sanity_check_vocab_sizes:
  "(differing_n_trg_vocab insts \<longrightarrow>
      check_n_trg_vocab insts = Inl (AssertionError ''target vocabularies differ.'') \<and>
      (\<exists>msg. sanity_check insts = Inl (AssertionError msg)))
   \<and> (insts \<noteq> [] \<and> same_n_trg_vocab insts \<longrightarrow> check_n_trg_vocab insts = Inr ())"
proof (intro conjI impI)
  assume d: "differing_n_trg_vocab insts"
  then have "check_n_trg_vocab insts \<noteq> Inr ()"
    by (simp only: check_n_trg_vocab_iff differing_iff) simp
  with check_n_trg_vocab_cases[of insts]
  show v: "check_n_trg_vocab insts = Inl (AssertionError ''target vocabularies differ.'')"
    by blast
  from check_eval_filters_cases[of insts]
  show "\<exists>msg. sanity_check insts = Inl (AssertionError msg)"
  proof
    assume "check_eval_filters insts = Inr ()"
    then have "sanity_check insts = Inl (AssertionError ''target vocabularies differ.'')"
      by (simp add: sanity_check_def v)
    then show ?thesis by blast
  next
    assume "check_eval_filters insts =
      Inl (AssertionError ''eval_filters differ between instances.'')"
    then have "sanity_check insts =
      Inl (AssertionError ''eval_filters differ between instances.'')"
      by (simp add: sanity_check_def)
    then show ?thesis by blast
  qed
next
  assume "insts \<noteq> [] \<and> same_n_trg_vocab insts"
  then show "check_n_trg_vocab insts = Inr ()" by (simp add: check_n_trg_vocab_iff)
qed

theorem sanity_check_vocab_sizes_witness:
  "sanity_check ens_vocab_mismatch = Inl (AssertionError ''target vocabularies differ.'') \<and>
   check_n_trg_vocab ens_matching = Inr ()"
proof -
  have d: "differing_n_trg_vocab ens_vocab_mismatch"
    by (simp add: ens_vocab_mismatch_def differing_n_trg_vocab_def)
  have s: "ens_matching \<noteq> [] \<and> same_n_trg_vocab ens_matching"
    by (simp add: ens_matching_def same_n_trg_vocab_def)
  from sanity_check_vocab_sizes[of ens_vocab_mismatch] d
  have "check_n_trg_vocab ens_vocab_mismatch =
      Inl (AssertionError ''target vocabularies differ.'')"
    by blast
  moreover have "check_eval_filters ens_vocab_mismatch = Inr ()"
    by (simp add: ens_vocab_mismatch_def check_eval_filters_def)
  ultimately have "sanity_check ens_vocab_mismatch =
      Inl (AssertionError ''target vocabularies differ.'')"
    by (simp add: sanity_check_def)
  moreover from sanity_check_vocab_sizes[of ens_matching] s
  have "check_n_trg_vocab ens_matching = Inr ()" by blast
  ultimately show ?thesis by simp
qed

text \<open>
  Claim C2, as stated, has the filter check accept whenever the members' configurations
  are equal as unordered sets. Two members that name the same two filters in different
  order are equal in that sense, and the check raises: it compares the configuration
  values themselves.
\<close>

theorem reordered_filters_counterexample:
  "same_filter_sets ens_reordered \<and>
   check_eval_filters ens_reordered =
     Inl (AssertionError ''eval_filters differ between instances.'')"
proof -
  have "same_filter_sets ens_reordered"
    by (simp add: ens_reordered_def same_filter_sets_def filter_set_def insert_commute)
  moreover have "check_eval_filters ens_reordered =
      Inl (AssertionError ''eval_filters differ between instances.'')"
    by (simp add: ens_reordered_def check_eval_filters_def)
  ultimately show ?thesis by simp
qed

text \<open>
  Claim C2, amended: the filter check accepts an ensemble exactly when all members
  declare the very same configuration value, and raises the assertion error otherwise.
\<close>

theorem check_eval_filters_exact:
  "(same_eval_filters insts \<longrightarrow> check_eval_filters insts = Inr ()) \<and>
   (\<not> same_eval_filters insts \<longrightarrow>
      check_eval_filters insts = Inl (AssertionError ''eval_filters differ between instances.''))"
  using check_eval_filters_iff[of insts] check_eval_filters_cases[of insts] by blast

theorem check_eval_filters_exact_witness:
  "check_eval_filters ens_matching = Inr () \<and>
   check_eval_filters ens_reordered =
     Inl (AssertionError ''eval_filters differ between instances.'')"
proof -
  have "same_eval_filters ens_matching"
    by (simp add: ens_matching_def same_eval_filters_def)
  with check_eval_filters_exact[of ens_matching]
  have "check_eval_filters ens_matching = Inr ()" by blast
  moreover have "\<not> same_eval_filters ens_reordered"
    by (simp add: ens_reordered_def same_eval_filters_def)
  with check_eval_filters_exact[of ens_reordered]
  have "check_eval_filters ens_reordered =
      Inl (AssertionError ''eval_filters differ between instances.'')"
    by blast
  ultimately show ?thesis by simp
qed

text \<open>
  Claim C8: on the empty list of instances \<open>sanity_check\<close> raises, by the vocabulary
  assertion; so a constructor given no model files raises before it returns, and the
  run ends there, with no event in its trace and the files as they were.
\<close>

theorem empty_ensemble_rejected:
  "sanity_check [] = Inl (AssertionError ''target vocabularies differ.'') \<and>
   translator_init E (kw\<lparr>kw_models := []\<rparr>) =
     ([], Inl (Raised (AssertionError ''target vocabularies differ.''))) \<and>
   run E (kw\<lparr>kw_models := []\<rparr>) fs =
     (\<lparr>trace = [], files = fs\<rparr>, Some (Raised (AssertionError ''target vocabularies differ.'')))"
proof -
  have s: "sanity_check [] = Inl (AssertionError ''target vocabularies differ.'')"
    by (simp add: sanity_check_def check_eval_filters_def check_n_trg_vocab_def)
  have i: "translator_init E (kw\<lparr>kw_models := []\<rparr>) =
     ([], Inl (Raised (AssertionError ''target vocabularies differ.'')))"
    by (simp add: translator_init_def s)
  have "run E (kw\<lparr>kw_models := []\<rparr>) fs =
     (\<lparr>trace = [], files = fs\<rparr>, Some (Raised (AssertionError ''target vocabularies differ.'')))"
    by (simp add: run_def i)
  with s i show ?thesis by simp
qed

section \<open>Output files\<close>

lemma str_nat_digit: "n < 10 \<Longrightarrow> str_nat n = [digit_char n]"
  by (simp add: str_nat.simps)

text \<open>The format of one decimal place on some values, ties included.\<close>

lemma format_1f_examples:
  "format_1f (5 / 2) = ''2.5'' \<and> format_1f (1 / 4) = ''0.2'' \<and> format_1f (3 / 4) = ''0.8''
   \<and> format_1f (1 / 100) = ''0.0'' \<and> format_1f 12 = ''12.0''"
  by code_simp

lemma str_nat_step:
  "\<not> n < 10 \<Longrightarrow> str_nat n = str_nat (n div 10) @ [digit_char (n mod 10)]"
  by (subst str_nat.simps) simp

lemma digit_cases:
  "d < (10::nat) \<Longrightarrow>
     d = 0 \<or> d = 1 \<or> d = 2 \<or> d = 3 \<or> d = 4 \<or> d = 5 \<or> d = 6 \<or> d = 7 \<or> d = 8 \<or> d = 9"
  by arith

lemma digit_val_digit_char: "d < 10 \<Longrightarrow> digit_val (digit_char d) = Some d"
  by (drule digit_cases) (elim disjE; simp add: digit_val_def digit_char_def)

lemma digit_char_not_zero: "d < 10 \<Longrightarrow> 0 < d \<Longrightarrow> digit_char d \<noteq> CHR ''0''"
  by (drule digit_cases) (elim disjE; simp add: digit_char_def)

lemma digit_char_not_minus: "d < 10 \<Longrightarrow> digit_char d \<noteq> CHR ''-''"
  by (drule digit_cases) (elim disjE; simp add: digit_char_def)

lemma read_digits_snoc:
  "read_digits (xs @ [c]) acc =
     (case read_digits xs acc of
        None \<Rightarrow> None
      | Some a \<Rightarrow> (case digit_val c of None \<Rightarrow> None | Some d \<Rightarrow> Some (10 * a + d)))"
  by (induction xs arbitrary: acc) (simp_all split: option.splits)

lemma read_digits_str_nat: "read_digits (str_nat n) 0 = Some n"
proof (induction n rule: str_nat.induct)
  case (1 n)
  show ?case
  proof (cases "n < 10")
    case True
    then show ?thesis by (simp add: str_nat_digit digit_val_digit_char)
  next
    case False
    with 1 have "read_digits (str_nat (n div 10)) 0 = Some (n div 10)" by simp
    with False show ?thesis
      by (simp add: str_nat_step read_digits_snoc digit_val_digit_char)
  qed
qed

lemma str_nat_not_Nil: "str_nat n \<noteq> []"
  by (cases "n < 10") (simp_all add: str_nat_digit str_nat_step)

lemma hd_str_nat:
  "hd (str_nat n) \<noteq> CHR ''-'' \<and> (0 < n \<longrightarrow> hd (str_nat n) \<noteq> CHR ''0'')"
proof (induction n rule: str_nat.induct)
  case (1 n)
  show ?case
  proof (cases "n < 10")
    case True
    then show ?thesis
      by (simp add: str_nat_digit digit_char_not_zero digit_char_not_minus)
  next
    case False
    then have "0 < n div 10" by simp
    with 1 False have "hd (str_nat (n div 10)) \<noteq> CHR ''-''"
      and "hd (str_nat (n div 10)) \<noteq> CHR ''0''" by simp_all
    with False show ?thesis by (simp add: str_nat_step str_nat_not_Nil)
  qed
qed

text \<open>The decimal numeral printed for a natural number, read back, is that number.\<close>

lemma read_nat_str_nat: "read_nat (str_nat n) = Some n"
proof (cases "n = 0")
  case True
  then show ?thesis by (simp add: read_nat_def str_nat_digit digit_char_def digit_val_def)
next
  case False
  with hd_str_nat[of n] show ?thesis
    by (simp add: read_nat_def str_nat_not_Nil read_digits_str_nat)
qed

lemma read_int_str_int: "read_int (str_int k) = Some k"
proof (cases "k < 0")
  case True
  then have "read_nat (str_nat (nat (- k))) = Some (nat (- k))" and "nat (- k) \<noteq> 0"
    by (simp_all add: read_nat_str_nat)
  with True show ?thesis by (simp add: read_int_def str_int_def)
next
  case False
  obtain c r where s: "str_nat (nat k) = c # r"
    using str_nat_not_Nil[of "nat k"] by (cases "str_nat (nat k)") auto
  with hd_str_nat[of "nat k"] have "c \<noteq> CHR ''-''" by simp
  moreover have "read_nat (c # r) = Some (nat k)" using read_nat_str_nat[of "nat k"] s by simp
  ultimately show ?thesis using False s by (simp add: read_int_def str_int_def)
qed

text \<open>Rounding to the nearest integer, ties to the even one.\<close>

lemma round_half_even_near:
  assumes "0 \<le> q"
  shows "0 \<le> round_half_even q \<and>
         \<bar>of_int (round_half_even q) - q\<bar> \<le> 1 / 2 \<and>
         (\<bar>of_int (round_half_even q) - q\<bar> = 1 / 2 \<longrightarrow> even (round_half_even q))"
proof -
  let ?f = "\<lfloor>q\<rfloor>"
  have lo: "of_int ?f \<le> q" and hi: "q < of_int ?f + 1" by linarith+
  have f0: "0 \<le> ?f" using assms by simp
  show ?thesis
  proof (cases "q - of_int ?f < 1 / 2")
    case True
    then have "round_half_even q = ?f" by (simp add: round_half_even_def Let_def)
    with True lo f0 show ?thesis by auto
  next
    case False
    show ?thesis
    proof (cases "1 / 2 < q - of_int ?f")
      case True
      with False have "round_half_even q = ?f + 1" by (simp add: round_half_even_def Let_def)
      with True hi f0 show ?thesis by auto
    next
      case nt: False
      with False have h: "q - of_int ?f = 1 / 2" by simp
      show ?thesis
      proof (cases "even ?f")
        case True
        with False nt have "round_half_even q = ?f" by (simp add: round_half_even_def Let_def)
        with True h f0 show ?thesis by auto
      next
        case odd: False
        with False nt have "round_half_even q = ?f + 1"
          by (simp add: round_half_even_def Let_def)
        with odd h f0 show ?thesis by auto
      qed
    qed
  qed
qed

lemma read_1f_format_1f:
  assumes "0 \<le> a"
  shows "read_1f (format_1f a) = Some (nat (round_half_even (a * 10)))"
proof -
  let ?t = "nat (round_half_even (a * 10))"
  have "format_1f a = str_nat (?t div 10) @ [CHR ''.'', digit_char (?t mod 10)]"
    using assms by (simp add: format_1f_def Let_def str_nat_digit abs_of_nonneg)
  then show ?thesis
    by (simp add: read_1f_def read_nat_str_nat digit_val_digit_char)
qed

text \<open>
  Claim C4, as stated, promises for every coefficient greater than zero a suffix
  \<open>.lp_\<close> followed by the coefficient with one decimal place. The float \<open>inf\<close> is
  greater than zero, and the format prints it by name: the file is called
  \<open>out.lp_inf.beam4\<close>, and \<open>inf\<close> is not a numeral with one decimal place.
\<close>

theorem infinite_alpha_counterexample:
  "float_pos PosInf \<and>
   dump_output (translator0\<lparr>lp_alpha := PosInf\<rparr>) ''new'' = ''out.lp_inf.beam4'' \<and>
   read_1f (py_format_1f PosInf) = None"
proof -
  have "dump_output (translator0\<lparr>lp_alpha := PosInf\<rparr>) ''new'' = ''out.lp_inf.beam4''"
    by (simp add: dump_output_def dump_suffix_def translator0_def str_int_def str_nat_digit
          digit_char_def)
  moreover have "read_1f (py_format_1f PosInf) = None"
    by (simp add: read_1f_def)
  ultimately show ?thesis by simp
qed

text \<open>
  Claim C4, amended to finite coefficients: the name of the output file is the base
  path, then \<open>.<split>\<close> unless the split is \<open>new\<close>, then \<open>.lp_<alpha>\<close> only when
  \<open>alpha > 0\<close>, then \<open>.ens<N>\<close> only when \<open>N > 1\<close>, then \<open>.beam<K>\<close> always. What is
  printed for \<open>N\<close> and \<open>K\<close> is their decimal numeral, and what is printed for a finite
  \<open>alpha > 0\<close> is a numeral with exactly one decimal place whose value in tenths is
  the integer nearest to \<open>10 * alpha\<close>, the even one at a tie. The two names the
  specification gives as examples come out as it says.
\<close>

theorem dump_output_name:
  "dump_output self split =
     output' self
     @ (if split = ''new'' then [] else ''.'' @ split)
     @ (if float_pos (lp_alpha self) then ''.lp_'' @ py_format_1f (lp_alpha self) else [])
     @ (if 1 < n_models self then ''.ens'' @ str_nat (n_models self) else [])
     @ ''.beam'' @ str_int (beam_size self)
   \<and> read_nat (str_nat (n_models self)) = Some (n_models self)
   \<and> read_int (str_int (beam_size self)) = Some (beam_size self)
   \<and> (\<forall>a. lp_alpha self = Finite a \<and> 0 < a \<longrightarrow>
         (\<exists>t. read_1f (py_format_1f (lp_alpha self)) = Some t \<and>
              \<bar>of_nat t - a * 10\<bar> \<le> 1 / 2 \<and>
              (\<bar>of_nat t - a * 10\<bar> = 1 / 2 \<longrightarrow> even t)))
   \<and> dump_output (self\<lparr>output' := ''out'', n_models := 2, beam_size := 5,
                          lp_alpha := Finite 1\<rparr>) ''test''
       = ''out.test.lp_1.0.ens2.beam5''
   \<and> dump_output (self\<lparr>output' := ''out'', n_models := 1, beam_size := 4,
                          lp_alpha := Finite 0\<rparr>) ''new''
       = ''out.beam4''"
proof -
  have f: "format_1f 1 = ''1.0''"
    by (simp add: format_1f_def round_half_even_def str_nat_digit digit_char_def)
  have g: "dump_output self split =
     output' self
     @ (if split = ''new'' then [] else ''.'' @ split)
     @ (if float_pos (lp_alpha self) then ''.lp_'' @ py_format_1f (lp_alpha self) else [])
     @ (if 1 < n_models self then ''.ens'' @ str_nat (n_models self) else [])
     @ ''.beam'' @ str_int (beam_size self)" for self split
    by (simp add: dump_output_def dump_suffix_def)
  have r: "\<exists>t. read_1f (py_format_1f (lp_alpha self)) = Some t \<and>
              \<bar>of_nat t - a * 10\<bar> \<le> 1 / 2 \<and>
              (\<bar>of_nat t - a * 10\<bar> = 1 / 2 \<longrightarrow> even t)"
    if h: "lp_alpha self = Finite a \<and> 0 < a" for a
  proof -
    let ?z = "round_half_even (a * 10)"
    from h have p: "0 \<le> a * 10" by simp
    from round_half_even_near[OF p]
    have z0: "0 \<le> ?z" and z1: "\<bar>of_int ?z - a * 10\<bar> \<le> 1 / 2"
      and z2: "\<bar>of_int ?z - a * 10\<bar> = 1 / 2 \<longrightarrow> even ?z"
      by blast+
    from z0 have c: "(of_nat (nat ?z) :: rat) = of_int ?z" by simp
    from z0 have e: "even (nat ?z) = even ?z" by (simp add: even_nat_iff)
    from h have "read_1f (py_format_1f (lp_alpha self)) = Some (nat ?z)"
      by (simp add: read_1f_format_1f)
    with z1 z2 c e show ?thesis by auto
  qed
  have a: "dump_output (self\<lparr>output' := ''out'', n_models := 2, beam_size := 5,
                          lp_alpha := Finite 1\<rparr>) ''test''
       = ''out.test.lp_1.0.ens2.beam5''"
    by (simp add: g f str_int_def str_nat_digit digit_char_def)
  have b: "dump_output (self\<lparr>output' := ''out'', n_models := 1, beam_size := 4,
                          lp_alpha := Finite 0\<rparr>) ''new''
       = ''out.beam4''"
    by (simp add: g str_int_def str_nat_digit digit_char_def)
  from g r a b read_nat_str_nat read_int_str_int show ?thesis by blast
qed

theorem dump_output_name_witness:
  "read_1f (py_format_1f (Finite (1 / 4))) = Some 2 \<and> read_nat (str_nat 12) = Some 12"
proof -
  let ?self = "translator0\<lparr>lp_alpha := Finite (1 / 4), n_models := 12\<rparr>"
  have h: "lp_alpha ?self = Finite (1 / 4) \<and> (0::rat) < 1 / 4" by simp
  from dump_output_name[of ?self "''val''"] h
  obtain t where t: "read_1f (py_format_1f (lp_alpha ?self)) = Some t"
    and n: "\<bar>of_nat t - (1 / 4) * (10::rat)\<bar> \<le> 1 / 2"
    and e: "\<bar>of_nat t - (1 / 4) * (10::rat)\<bar> = 1 / 2 \<longrightarrow> even t"
    by blast
  have "t \<le> 3"
  proof (rule ccontr)
    assume "\<not> t \<le> 3"
    then have "4 \<le> t" by simp
    then have "(of_nat 4 :: rat) \<le> of_nat t" by (simp only: of_nat_le_iff)
    with n show False by (simp add: abs_le_iff)
  qed
  moreover have "2 \<le> t"
  proof (rule ccontr)
    assume "\<not> 2 \<le> t"
    then have "t \<le> 1" by simp
    then have "(of_nat t :: rat) \<le> of_nat 1" by (simp only: of_nat_le_iff)
    with n show False by (simp add: abs_le_iff)
  qed
  ultimately have "t = 2 \<or> t = 3" by arith
  with e have "t = 2" by auto
  with t have "read_1f (py_format_1f (Finite (1 / 4))) = Some 2" by simp
  moreover from dump_output_name[of ?self "''val''"]
  have "read_nat (str_nat (n_models ?self)) = Some (n_models ?self)" by blast
  then have "read_nat (str_nat 12) = Some 12" by simp
  ultimately show ?thesis by simp
qed

text \<open>A name with every suffix, a tie in the rounding and a two-digit ensemble.\<close>

lemma dump_output_example:
  "dump_output (self\<lparr>output' := ''out'', n_models := 12, beam_size := 3,
                       lp_alpha := Finite (1 / 4)\<rparr>) ''val''
       = ''out.val.lp_0.2.ens12.beam3''"
  by (simp add: dump_output_def dump_suffix_def) code_simp

text \<open>Not-a-number is not greater than zero: no suffix for it.\<close>

lemma nan_alpha_example:
  "dump_output (translator0\<lparr>lp_alpha := NaN\<rparr>) ''new'' = ''out.beam4''"
  by (simp add: dump_output_def dump_suffix_def translator0_def str_int_def str_nat_digit
        digit_char_def)

lemma write_lines_eq:
  "write_lines hyps content = content @ concat (map (\<lambda>line. line @ [CHR 0x0A]) hyps)"
  by (induction hyps arbitrary: content) simp_all

text \<open>
  Claim C6: after \<open>dump\<close> the file at the constructed path holds the hypotheses in
  their order, each followed by a newline, and nothing of what the path held before;
  every other file is as it was; an empty list of hypotheses leaves an empty file.
\<close>

theorem dump_writes_hypotheses:
  "files (dump self hyps split w) =
     (files w)(dump_output self split \<mapsto> concat (map (\<lambda>line. line @ [CHR 0x0A]) hyps)) \<and>
   files (dump self [] split w) (dump_output self split) = Some []"
  by (simp add: dump_def write_lines_eq Let_def)

text \<open>
  Read back and split at the newlines, the file gives the hypotheses again (and the empty
  rest after the last newline), as long as no hypothesis contains a newline itself.
\<close>

lemma py_split_line:
  "sep \<notin> set h \<Longrightarrow> py_split sep (h @ sep # rest) = h # py_split sep rest"
  by (induction h) (auto split: list.splits)

lemma written_lines:
  "\<forall>h\<in>set hyps. CHR 0x0A \<notin> set h \<Longrightarrow>
     py_split (CHR 0x0A) (concat (map (\<lambda>line. line @ [CHR 0x0A]) hyps)) = hyps @ [[]]"
  by (induction hyps) (simp_all add: py_split_line)

section \<open>The constructor\<close>

lemma translator_init_Inr:
  assumes "translator_init E kw = (tr, Inr self)"
  shows "load_models E (kw_models kw) [] [] = (tr, Inr (instances self)) \<and>
         sanity_check (instances self) = Inr () \<and>
         setup_filter E (kw_disable_filters kw) (instances self) = Inr (filter_fn self) \<and>
         setup_splits (kw_splits kw) (kw_source kw) = Inr (splits self, new_set self)"
  using assms
  by (simp add: translator_init_def split: prod.splits sum.splits) (clarsimp)

lemma setup_filter_Inr:
  assumes "setup_filter E disable insts = Inr f"
  shows "insts \<noteq> [] \<and>
         f = (if disable \<or> eval_filters (hd insts) = [] then (\<lambda>s. s)
              else FilterChain E (eval_filters (hd insts)))"
  using assms by (cases insts) (auto simp: setup_filter_def Let_def split: if_splits)

text \<open>
  Claim C5: when the constructor returns and either the caller disabled post-processing
  or the first member's filter configuration is empty, the filter of the translator is
  the identity function, the same function in both cases; it returns every list of
  hypotheses unchanged, and \<open>translate\<close> returns what the beam search produced.
\<close>

theorem disabled_filter_is_identity:
  assumes "translator_init E kw = (tr, Inr self)"
      and "kw_disable_filters kw \<or> eval_filters (hd (instances self)) = []"
  shows "filter_fn self = (\<lambda>s. s) \<and> filter_fn self hyps = hyps \<and>
         translate E self split tr0 =
           (tr0 @ [LoadData split, BeamSearch split],
            Inr (beam_search E (instances self) split (batch_size self) (beam_size self)
                   (max_len self) (lp_alpha self)))"
proof -
  from translator_init_Inr[OF assms(1)]
  have "setup_filter E (kw_disable_filters kw) (instances self) = Inr (filter_fn self)"
    by blast
  from setup_filter_Inr[OF this] assms(2)
  have ne: "instances self \<noteq> []" and f: "filter_fn self = (\<lambda>s. s)"
    by simp_all
  from ne obtain i0 rest where "instances self = i0 # rest"
    by (cases "instances self") simp_all
  then have "translate E self split tr0 =
           (tr0 @ [LoadData split, BeamSearch split],
            Inr (beam_search E (instances self) split (batch_size self) (beam_size self)
                   (max_len self) (lp_alpha self)))"
    by (simp add: translate_def f Let_def)
  with f show ?thesis by simp
qed

theorem disabled_filter_is_identity_witness:
  "(\<exists>tr self. translator_init env0 kw_disabled = (tr, Inr self) \<and>
       filter_fn self [''ein hund''] = [''ein hund'']) \<and>
   (\<exists>tr self. translator_init env0 kw_plain = (tr, Inr self) \<and>
       filter_fn self [''ein hund''] = [''ein hund''])"
proof -
  have "\<exists>tr self. translator_init env0 kw_disabled = (tr, Inr self)"
    by (simp add: translator_init_def env0_def kw_disabled_def kw0_def sanity_check_def
          check_eval_filters_def check_n_trg_vocab_def setup_filter_def setup_splits_def
          py_split1_def)
  then obtain tr1 self1 where i1: "translator_init env0 kw_disabled = (tr1, Inr self1)"
    by blast
  have d: "kw_disable_filters kw_disabled \<or> eval_filters (hd (instances self1)) = []"
    by (simp add: kw_disabled_def)
  have "\<exists>tr self. translator_init env0 kw_plain = (tr, Inr self)"
    by (simp add: translator_init_def env0_def kw_plain_def kw0_def sanity_check_def
          check_eval_filters_def check_n_trg_vocab_def setup_filter_def setup_splits_def
          py_split1_def)
  then obtain tr2 self2 where i2: "translator_init env0 kw_plain = (tr2, Inr self2)"
    by blast
  from translator_init_Inr[OF i2]
  have "load_models env0 (kw_models kw_plain) [] [] = (tr2, Inr (instances self2))" by blast
  then have "instances self2 = [\<lparr>supports_beam_search = True, n_trg_vocab = 100, eval_filters = []\<rparr>]"
    by (simp add: env0_def kw_plain_def kw0_def)
  then have e: "kw_disable_filters kw_plain \<or> eval_filters (hd (instances self2)) = []"
    by simp
  from disabled_filter_is_identity[OF i1 d, of "[''ein hund'']"]
       disabled_filter_is_identity[OF i2 e, of "[''ein hund'']"] i1 i2
  show ?thesis by blast
qed

text \<open>With a filter configured and not disabled, the hypotheses do change.\<close>

lemma enabled_filter_example:
  "\<exists>tr self. translator_init env0 kw0 = (tr, Inr self) \<and>
       filter_fn self [''ein hund''] = [''ein hund.'']"
  by (simp add: translator_init_def env0_def kw0_def sanity_check_def
        check_eval_filters_def check_n_trg_vocab_def setup_filter_def setup_splits_def
        py_split1_def)

lemma parse_source_eq:
  assumes "\<forall>e\<in>set es. CHR '':'' \<in> set e"
  shows "parse_source es d = Inr (d ++ map_of (rev (map key_path es)))"
  using assms
proof (induction es arbitrary: d)
  case Nil
  then show ?case by simp
next
  case (Cons e es)
  then have c: "CHR '':'' \<in> set e" and r: "\<forall>e\<in>set es. CHR '':'' \<in> set e" by simp_all
  have "parse_source (e # es) d =
        parse_source es (d(fst (key_path e) \<mapsto> snd (key_path e)))"
    using c by (simp add: py_split1_def key_path_def)
  also have "\<dots> =
      Inr (d(fst (key_path e) \<mapsto> snd (key_path e)) ++ map_of (rev (map key_path es)))"
    by (rule Cons.IH[OF r])
  also have "d(fst (key_path e) \<mapsto> snd (key_path e)) ++ map_of (rev (map key_path es))
           = d ++ map_of (rev (map key_path (e # es)))"
    by (cases "key_path e")
       (simp add: map_add_upd_left map_add_assoc[symmetric] fun_eq_iff map_add_def
             split: option.splits)
  finally show ?case .
qed

text \<open>An entry without a colon makes the tuple unpacking of line 78 fail.\<close>

lemma parse_source_ValueError:
  assumes "\<exists>e\<in>set es. CHR '':'' \<notin> set e"
  shows "parse_source es d = Inl ValueError"
  using assms
proof (induction es arbitrary: d)
  case Nil
  then show ?case by simp
next
  case (Cons e es)
  show ?case
  proof (cases "CHR '':'' \<in> set e")
    case True
    with Cons.prems have "\<exists>e\<in>set es. CHR '':'' \<notin> set e" by auto
    from Cons.IH[OF this] True show ?thesis by (simp add: py_split1_def)
  next
    case False
    then show ?thesis by (simp add: py_split1_def)
  qed
qed

text \<open>
  A constructor that reaches line 70 with no named splits and a source mapping whose
  entries all contain a colon returns, with the single split \<open>new\<close> and the parsed
  mapping.
\<close>

lemma constructor_returns_on_source_mapping:
  assumes "load_models E (kw_models kw) [] [] = (tr, Inr insts)"
      and "sanity_check insts = Inr ()"
      and "\<not> truthy (kw_splits kw)"
      and "kw_source kw = Some m" and "m \<noteq> []"
      and "\<forall>e\<in>set (py_split CHR '','' m). CHR '':'' \<in> set e"
  shows "setup_splits (kw_splits kw) (kw_source kw) =
           Inr (SplitsList [''new''], Some (map_of (rev (map key_path (py_split CHR '','' m))))) \<and>
         (\<exists>self. translator_init E kw = (tr, Inr self) \<and>
                 splits self = SplitsList [''new''] \<and>
                 new_set self = Some (map_of (rev (map key_path (py_split CHR '','' m)))))"
proof -
  have p: "parse_source (py_split CHR '','' m) Map.empty =
           Inr (map_of (rev (map key_path (py_split CHR '','' m))))"
    using parse_source_eq[OF assms(6), of Map.empty] by simp
  have s: "setup_splits (kw_splits kw) (kw_source kw) =
           Inr (SplitsList [''new''], Some (map_of (rev (map key_path (py_split CHR '','' m)))))"
    using assms(3,4,5) p
    by (cases "kw_splits kw") (simp_all add: setup_splits_def truthy_def)
  from assms(2) have "check_n_trg_vocab insts = Inr ()"
    by (simp add: sanity_check_def split: sum.splits)
  then have "insts \<noteq> []" by (simp add: check_n_trg_vocab_iff)
  then have "\<exists>f. setup_filter E (kw_disable_filters kw) insts = Inr f"
    by (cases insts) (simp_all add: setup_filter_def Let_def)
  then obtain f where "setup_filter E (kw_disable_filters kw) insts = Inr f" ..
  with assms(1,2) s show ?thesis
    by (simp add: translator_init_def)
qed

lemma constructor_returns_example:
  "setup_splits (kw_splits kw0) (kw_source kw0) =
     Inr (SplitsList [''new''],
          Some [''en'' \<mapsto> Path ''/data/test.en'', ''image'' \<mapsto> Path ''/data/feats:v2.npy''])"
proof -
  have l: "load_models env0 (kw_models kw0) [] [] =
      ([Created 0 \<lparr>supports_beam_search = True, n_trg_vocab = 100, eval_filters = ''de-bpe''\<rparr>,
        Setup 0, LoadStateDict 0, Cuda 0, TrainFalse 0],
       Inr [\<lparr>supports_beam_search = True, n_trg_vocab = 100, eval_filters = ''de-bpe''\<rparr>])"
    by (simp add: env0_def kw0_def)
  have c: "sanity_check
      [\<lparr>supports_beam_search = True, n_trg_vocab = 100, eval_filters = ''de-bpe''\<rparr>] = Inr ()"
    by (simp add: sanity_check_def check_eval_filters_def check_n_trg_vocab_def)
  have t: "\<not> truthy (kw_splits kw0)" by (simp add: kw0_def truthy_def)
  have m: "kw_source kw0 = Some ''en:/data/test.en,image:/data/feats:v2.npy''"
    by (simp add: kw0_def)
  have sp: "py_split CHR '','' ''en:/data/test.en,image:/data/feats:v2.npy'' =
      [''en:/data/test.en'', ''image:/data/feats:v2.npy'']"
    by simp
  have w: "\<forall>e\<in>set (py_split CHR '','' ''en:/data/test.en,image:/data/feats:v2.npy'').
             CHR '':'' \<in> set e"
    unfolding sp by simp
  have "map_of (rev (map key_path (py_split CHR '','' ''en:/data/test.en,image:/data/feats:v2.npy'')))
      = [''en'' \<mapsto> Path ''/data/test.en'', ''image'' \<mapsto> Path ''/data/feats:v2.npy'']"
    unfolding sp by (simp add: key_path_def fun_eq_iff)
  with constructor_returns_on_source_mapping[OF l c t m _ w] show ?thesis by simp
qed

lemma setup_splits_source:
  assumes "\<not> truthy sp" and "src = Some m" and "m \<noteq> []"
  shows "setup_splits sp src =
           (case parse_source (py_split CHR '','' m) Map.empty of
              Inl e \<Rightarrow> Inl e
            | Inr input_dict \<Rightarrow> Inr (SplitsList [''new''], Some input_dict))"
  using assms by (cases sp) (simp_all add: setup_splits_def truthy_def)

text \<open>An entry without a colon anywhere in the mapping makes lines 70-82 raise.\<close>

lemma setup_splits_malformed:
  assumes "\<not> truthy sp" and "src = Some m" and "m \<noteq> []"
      and "\<exists>e\<in>set (py_split CHR '','' m). CHR '':'' \<notin> set e"
  shows "setup_splits sp src = Inl ValueError"
  using parse_source_ValueError[OF assms(4), of Map.empty]
  by (simp add: setup_splits_source[OF assms(1,2,3)])

text \<open>
  Claim C7, as stated, has the constructor set the splits to \<open>['new']\<close> whenever no
  named splits and some source mapping are given. For the mapping
  \<open>en:/data/test.en,feats.npy\<close> the second entry has no colon, the unpacking of line 78
  raises, and the constructor ends with that exception instead of an object.
\<close>

theorem malformed_source_counterexample:
  "\<not> truthy (kw_splits kw_malformed) \<and> truthy (kw_source kw_malformed) \<and>
   setup_splits (kw_splits kw_malformed) (kw_source kw_malformed) = Inl ValueError \<and>
   snd (translator_init env0 kw_malformed) = Inl (Raised ValueError)"
proof -
  have a: "\<not> truthy (kw_splits kw_malformed)" "truthy (kw_source kw_malformed)"
    by (simp_all add: kw_malformed_def kw0_def truthy_def)
  have b: "setup_splits (kw_splits kw_malformed) (kw_source kw_malformed) = Inl ValueError"
    by (simp add: kw_malformed_def kw0_def setup_splits_def py_split1_def)
  have "snd (translator_init env0 kw_malformed) = Inl (Raised ValueError)"
    by (simp add: translator_init_def env0_def kw_malformed_def kw0_def sanity_check_def
          check_eval_filters_def check_n_trg_vocab_def setup_filter_def setup_splits_def
          py_split1_def)
  with a b show ?thesis by simp
qed

text \<open>
  Claim C7, amended: when no named splits are given and a source mapping is given whose
  comma separated entries each contain a colon, lines 70-82 set the splits to exactly
  \<open>['new']\<close> and bind, entry after entry, the text before the first colon of the entry
  to the path after it; every object the constructor returns has these two values, and
  a constructor whose models loaded and passed the sanity check does return one.
\<close>

theorem source_mapping_parsed:
  assumes "\<not> truthy (kw_splits kw)"
      and "kw_source kw = Some m" and "m \<noteq> []"
      and "\<forall>e\<in>set (py_split CHR '','' m). CHR '':'' \<in> set e"
  shows "setup_splits (kw_splits kw) (kw_source kw) =
           Inr (SplitsList [''new''], Some (map_of (rev (map key_path (py_split CHR '','' m))))) \<and>
         (translator_init E kw = (tr, Inr self) \<longrightarrow>
            splits self = SplitsList [''new''] \<and>
            new_set self = Some (map_of (rev (map key_path (py_split CHR '','' m))))) \<and>
         (load_models E (kw_models kw) [] [] = (tr, Inr insts) \<and> sanity_check insts = Inr () \<longrightarrow>
            (\<exists>self. translator_init E kw = (tr, Inr self) \<and>
                    splits self = SplitsList [''new''] \<and>
                    new_set self = Some (map_of (rev (map key_path (py_split CHR '','' m))))))"
proof -
  let ?es = "py_split CHR '','' m"
  from parse_source_eq[OF assms(4), of Map.empty]
  have "parse_source ?es Map.empty = Inr (map_of (rev (map key_path ?es)))" by simp
  then have s: "setup_splits (kw_splits kw) (kw_source kw) =
           Inr (SplitsList [''new''], Some (map_of (rev (map key_path ?es))))"
    by (simp add: setup_splits_source[OF assms(1,2,3)])
  have p: "splits self = SplitsList [''new''] \<and>
        new_set self = Some (map_of (rev (map key_path ?es)))"
    if i: "translator_init E kw = (tr, Inr self)"
  proof -
    from translator_init_Inr[OF i]
    have "setup_splits (kw_splits kw) (kw_source kw) = Inr (splits self, new_set self)"
      by blast
    with s show ?thesis by simp
  qed
  have q: "\<exists>self. translator_init E kw = (tr, Inr self) \<and>
                    splits self = SplitsList [''new''] \<and>
                    new_set self = Some (map_of (rev (map key_path ?es)))"
    if l: "load_models E (kw_models kw) [] [] = (tr, Inr insts) \<and> sanity_check insts = Inr ()"
  proof -
    from l have l1: "load_models E (kw_models kw) [] [] = (tr, Inr insts)"
      and l2: "sanity_check insts = Inr ()" by simp_all
    from constructor_returns_on_source_mapping[OF l1 l2 assms(1,2,3,4)]
    show ?thesis by blast
  qed
  from s p q show ?thesis by blast
qed

theorem source_mapping_parsed_witness:
  "setup_splits (kw_splits kw0) (kw_source kw0) =
     Inr (SplitsList [''new''],
          Some [''en'' \<mapsto> Path ''/data/test.en'', ''image'' \<mapsto> Path ''/data/feats:v2.npy'']) \<and>
   (\<exists>tr self. translator_init env0 kw0 = (tr, Inr self) \<and>
       splits self = SplitsList [''new''] \<and>
       new_set self =
         Some [''en'' \<mapsto> Path ''/data/test.en'', ''image'' \<mapsto> Path ''/data/feats:v2.npy''])"
proof -
  let ?m = "''en:/data/test.en,image:/data/feats:v2.npy''"
  have t: "\<not> truthy (kw_splits kw0)" by (simp add: kw0_def truthy_def)
  have m: "kw_source kw0 = Some ?m" by (simp add: kw0_def)
  have n: "?m \<noteq> []" by simp
  have sp: "py_split CHR '','' ?m = [''en:/data/test.en'', ''image:/data/feats:v2.npy'']"
    by simp
  have w: "\<forall>e\<in>set (py_split CHR '','' ?m). CHR '':'' \<in> set e"
    unfolding sp by simp
  have d: "map_of (rev (map key_path (py_split CHR '','' ?m)))
      = [''en'' \<mapsto> Path ''/data/test.en'', ''image'' \<mapsto> Path ''/data/feats:v2.npy'']"
    unfolding sp by (simp add: key_path_def fun_eq_iff)
  have "\<exists>tr self. translator_init env0 kw0 = (tr, Inr self)"
    by (simp add: translator_init_def env0_def kw0_def sanity_check_def
          check_eval_filters_def check_n_trg_vocab_def setup_filter_def setup_splits_def
          py_split1_def)
  then obtain tr self where i: "translator_init env0 kw0 = (tr, Inr self)" by blast
  from source_mapping_parsed[OF t m n w, of env0 tr self] d i show ?thesis by auto
qed

text \<open>The second entry has no colon.\<close>

lemma malformed_source_raises:
  "setup_splits None (Some ''en:/data/test.en,feats.npy'') = Inl ValueError"
  by (simp add: setup_splits_def py_split1_def)

section \<open>Runs\<close>

lemma call_loop_trace:
  "call_loop E self xs w = (w', r) \<Longrightarrow>
     \<exists>new. trace w' = trace w @ new \<and> list_all is_decoding new"
proof (induction xs arbitrary: w)
  case Nil
  then show ?case by simp
next
  case (Cons x xs)
  show ?case
  proof (cases "instances self")
    case Nil
    with Cons.prems show ?thesis by (simp add: translate_def)
  next
    case (Cons i0 rest)
    let ?hyps = "filter_fn self (beam_search E (instances self) x (batch_size self)
                       (beam_size self) (max_len self) (lp_alpha self))"
    let ?w1 = "dump self ?hyps x (w\<lparr>trace := trace w @ [LoadData x, BeamSearch x]\<rparr>)"
    from Cons Cons.prems have "call_loop E self xs ?w1 = (w', r)"
      by (simp add: translate_def Let_def)
    from Cons.IH[OF this] obtain new where
      n: "trace w' = trace ?w1 @ new" "list_all is_decoding new" by blast
    have "trace ?w1 = trace w @ [LoadData x, BeamSearch x, WriteFile (dump_output self x)]"
      by (simp add: dump_def Let_def)
    with n have "trace w' = trace w @ ([LoadData x, BeamSearch x, WriteFile (dump_output self x)] @ new)
        \<and> list_all is_decoding ([LoadData x, BeamSearch x, WriteFile (dump_output self x)] @ new)"
      by simp
    then show ?thesis by blast
  qed
qed

lemma call_trace:
  "call E self w = (w', r) \<Longrightarrow>
     \<exists>new. trace w' = trace w @ new \<and> list_all is_decoding new"
  by (cases "splits self") (auto simp: call_def dest: call_loop_trace)


lemma idx_ge_mono: "idx_ge (Suc n) evs \<Longrightarrow> idx_ge n evs"
  by (induction evs) (auto simp: idx_ge_def split: option.splits)

lemma idx_ge_Created: "idx_ge n evs \<Longrightarrow> Created k i \<in> set evs \<Longrightarrow> n \<le> k"
  by (induction evs) (auto simp: idx_ge_def)

lemma idx_lt_LoadStateDict: "idx_lt k evs \<Longrightarrow> LoadStateDict k \<notin> set evs"
  by (induction evs) (auto simp: idx_lt_def)

lemma load_models_trace:
  "load_models E fs insts tr = (tr', r) \<Longrightarrow>
     \<exists>new. tr' = tr @ new \<and> idx_ge (length insts) new \<and> list_all (\<lambda>e. \<not> is_decoding e) new \<and>
       (\<forall>k i. Created k i \<in> set new \<and> \<not> supports_beam_search i \<longrightarrow>
          r = Inl (SystemExit 1) \<and>
          (\<exists>pre msg. new = pre @ [Created k i, LogError msg] \<and> idx_lt k pre))"
proof (induction fs arbitrary: insts tr)
  case Nil
  then show ?case by (simp add: idx_ge_def)
next
  case (Cons f fs)
  show ?case
  proof (cases "load_instance E f")
    case (Inl e)
    with Cons.prems show ?thesis by (simp add: idx_ge_def)
  next
    case (Inr inst)
    let ?n = "length insts"
    show ?thesis
    proof (cases "supports_beam_search inst")
      case False
      with Inr Cons.prems
      have "tr' = tr @ [Created ?n inst, LogError ''Model does not support beam search. Try 'nmtpy test' '']"
        and "r = Inl (SystemExit 1)"
        by (simp_all add: Let_def)
      moreover have "idx_lt k []" for k by (simp add: idx_lt_def)
      ultimately show ?thesis
        by (intro exI[of _ "[Created ?n inst, LogError ''Model does not support beam search. Try 'nmtpy test' '']"])
           (auto simp: idx_ge_def intro!: exI[of _ "[]"])
    next
      case True
      show ?thesis
      proof (cases "weights_fit E f")
        case False
        with True Inr Cons.prems
        have "tr' = tr @ [Created ?n inst, Setup ?n]" by (simp add: Let_def)
        with True show ?thesis
          by (intro exI[of _ "[Created ?n inst, Setup ?n]"]) (auto simp: idx_ge_def)
      next
        case fit: True
        let ?block = "[Created ?n inst, Setup ?n, LoadStateDict ?n, Cuda ?n, TrainFalse ?n]"
        from fit True Inr Cons.prems
        have "load_models E fs (insts @ [inst]) (tr @ ?block) = (tr', r)"
          by (simp add: Let_def)
        from Cons.IH[OF this] obtain new where
          n1: "tr' = (tr @ ?block) @ new" and
          n2: "idx_ge (Suc ?n) new" and
          n3: "list_all (\<lambda>e. \<not> is_decoding e) new" and
          n4: "\<forall>k i. Created k i \<in> set new \<and> \<not> supports_beam_search i \<longrightarrow>
                 r = Inl (SystemExit 1) \<and>
                 (\<exists>pre msg. new = pre @ [Created k i, LogError msg] \<and> idx_lt k pre)"
          by auto
        have a: "tr' = tr @ (?block @ new)" using n1 by simp
        have b: "idx_ge ?n (?block @ new)"
          using idx_ge_mono[OF n2] by (simp add: idx_ge_def)
        have c: "list_all (\<lambda>e. \<not> is_decoding e) (?block @ new)" using n3 by simp
        have d: "r = Inl (SystemExit 1) \<and>
                 (\<exists>pre msg. ?block @ new = pre @ [Created k i, LogError msg] \<and> idx_lt k pre)"
          if h: "Created k i \<in> set (?block @ new) \<and> \<not> supports_beam_search i" for k i
        proof -
          from h True have m: "Created k i \<in> set new" by auto
          with n4 h obtain pre msg where
            p: "r = Inl (SystemExit 1)" "new = pre @ [Created k i, LogError msg]" "idx_lt k pre"
            by blast
          from idx_ge_Created[OF n2 m] have "?n < k" by simp
          with p(3) have "idx_lt k (?block @ pre)" by (simp add: idx_lt_def)
          moreover have "?block @ new = (?block @ pre) @ [Created k i, LogError msg]"
            using p(2) by simp
          ultimately show ?thesis using p(1) by blast
        qed
        from a b c d show ?thesis by blast
      qed
    qed
  qed
qed

lemma translator_init_load:
  "translator_init E kw = (tr, x) \<Longrightarrow>
     \<exists>r0. load_models E (kw_models kw) [] [] = (tr, r0) \<and> (\<forall>s. r0 = Inl s \<longrightarrow> x = Inl s)"
  by (cases "load_models E (kw_models kw) [] []")
     (auto simp: translator_init_def split: sum.splits prod.splits)

lemma run_trace:
  assumes "run E kw fs = (w, r)"
  shows "\<exists>tr0 r0 new. load_models E (kw_models kw) [] [] = (tr0, r0) \<and>
           trace w = tr0 @ new \<and> list_all is_decoding new \<and>
           (\<forall>s. r0 = Inl s \<longrightarrow> new = [] \<and> r = Some s \<and> files w = fs)"
proof -
  obtain tr x where i: "translator_init E kw = (tr, x)" by (cases "translator_init E kw")
  from translator_init_load[OF i] obtain r0 where
    l: "load_models E (kw_models kw) [] [] = (tr, r0)" and
    e: "\<forall>s. r0 = Inl s \<longrightarrow> x = Inl s" by blast
  show ?thesis
  proof (cases x)
    case (Inl s)
    with assms i have "w = \<lparr>trace = tr, files = fs\<rparr>" and "r = Some s"
      by (simp_all add: run_def)
    with l e Inl show ?thesis by auto
  next
    case (Inr self)
    with assms i have "call E self \<lparr>trace = tr, files = fs\<rparr> = (w, r)"
      by (simp add: run_def)
    from call_trace[OF this] obtain new where
      "trace w = tr @ new" "list_all is_decoding new" by auto
    with l e Inr show ?thesis by auto
  qed
qed

lemma decoding_not_Created: "list_all is_decoding new \<Longrightarrow> Created k i \<notin> set new"
  by (induction new) auto

text \<open>
  Claim C3: if a run builds an instance that does not declare beam-search support, it
  ends with \<open>sys.exit(1)\<close>, a non-zero status; the error log is the only thing that
  follows the construction of that instance, so its weights are never loaded; and no
  decoding, and no writing of output, happens in the run, which leaves the files as
  they were.
\<close>

theorem unsupported_model_exits:
  assumes "run E kw fs = (w, r)"
      and "Created k i \<in> set (trace w)"
      and "\<not> supports_beam_search i"
  shows "r = Some (SystemExit 1) \<and>
         (\<exists>pre msg. trace w = pre @ [Created k i, LogError msg]) \<and>
         LoadStateDict k \<notin> set (trace w) \<and>
         list_all (\<lambda>e. \<not> is_decoding e) (trace w) \<and>
         files w = fs"
proof -
  from run_trace[OF assms(1)] obtain tr0 r0 new where
    l: "load_models E (kw_models kw) [] [] = (tr0, r0)" and
    t: "trace w = tr0 @ new" and
    d: "list_all is_decoding new" and
    e: "\<forall>s. r0 = Inl s \<longrightarrow> new = [] \<and> r = Some s \<and> files w = fs"
    by blast
  from assms(2) t decoding_not_Created[OF d] have c: "Created k i \<in> set tr0" by auto
  from load_models_trace[OF l] have
    n: "list_all (\<lambda>e. \<not> is_decoding e) tr0" and
    u: "\<forall>k i. Created k i \<in> set tr0 \<and> \<not> supports_beam_search i \<longrightarrow>
          r0 = Inl (SystemExit 1) \<and>
          (\<exists>pre msg. tr0 = pre @ [Created k i, LogError msg] \<and> idx_lt k pre)"
    by auto
  from u c assms(3) obtain pre msg where
    r0: "r0 = Inl (SystemExit 1)" and p: "tr0 = pre @ [Created k i, LogError msg]" and
    lt: "idx_lt k pre"
    by blast
  from e r0 have f: "new = []" "r = Some (SystemExit 1)" "files w = fs" by simp_all
  from t f(1) have tw: "trace w = tr0" by simp
  have "LoadStateDict k \<notin> set tr0"
    using idx_lt_LoadStateDict[OF lt] p by simp
  with tw p n f show ?thesis by auto
qed

theorem unsupported_model_exits_witness:
  "snd (run env0 kw_ens Map.empty) = Some (SystemExit 1) \<and>
   LoadStateDict 1 \<notin> set (trace (fst (run env0 kw_ens Map.empty))) \<and>
   LoadStateDict 0 \<in> set (trace (fst (run env0 kw_ens Map.empty)))"
proof -
  let ?i0 = "\<lparr>supports_beam_search = True, n_trg_vocab = 100, eval_filters = ''de-bpe''\<rparr>"
  let ?i1 = "\<lparr>supports_beam_search = False, n_trg_vocab = 100, eval_filters = ''de-bpe''\<rparr>"
  let ?tr = "[Created 0 ?i0, Setup 0, LoadStateDict 0, Cuda 0, TrainFalse 0, Created 1 ?i1,
              LogError ''Model does not support beam search. Try 'nmtpy test' '']"
  have l: "load_models env0 (kw_models kw_ens) [] [] = (?tr, Inl (SystemExit 1))"
    by (simp add: env0_def kw_ens_def kw0_def)
  have r: "run env0 kw_ens Map.empty = (\<lparr>trace = ?tr, files = Map.empty\<rparr>, Some (SystemExit 1))"
    by (simp add: run_def translator_init_def l)
  have c: "Created 1 ?i1 \<in> set (trace \<lparr>trace = ?tr, files = Map.empty\<rparr>)" by simp
  have s: "\<not> supports_beam_search ?i1" by simp
  from unsupported_model_exits[OF r c s] show ?thesis by (simp add: r)
qed

section \<open>The dataset constructor\<close>

lemma srcs_loop_None:
  "srcs_loop R dd opt (topo, data) = ((topo', data'), None) \<Longrightarrow>
     srcs topo' = filter (\<lambda>(k, ds). k \<in> dom dd \<or> k \<notin> fst ` set R) (srcs topo) \<and>
     trgs topo' = trgs topo"
proof (induction R arbitrary: topo data)
  case Nil
  then show ?case by simp
next
  case (Cons a R)
  obtain src ds where a: "a = (src, ds)" by (cases a)
  show ?case
  proof (cases "dd src")
    case None
    with Cons.prems a have m: "src \<in> fst ` set (srcs topo)"
      by (auto simp: dict_del_def split: if_splits)
    with Cons.prems a None
    have "srcs_loop R dd opt (topo\<lparr>srcs := AList.delete src (srcs topo)\<rparr>, data) = ((topo', data'), None)"
      by (simp add: dict_del_def)
    note ih = Cons.IH[OF this]
    from ih have t: "trgs topo' = trgs topo" by simp
    from ih
    have "srcs topo' = filter (\<lambda>(k, ds). k \<in> dom dd \<or> k \<notin> fst ` set R) (AList.delete src (srcs topo))"
      by simp
    then have "srcs topo' =
        filter (\<lambda>(k, ds). (k \<in> dom dd \<or> k \<notin> fst ` set R) \<and> k \<noteq> src) (srcs topo)"
      by (auto simp: AList.delete_eq intro!: filter_cong)
    also have "\<dots> = filter (\<lambda>(k, ds). k \<in> dom dd \<or> k \<notin> fst ` set (a # R)) (srcs topo)"
      using None a by (intro filter_cong) (auto simp: dom_def)
    finally show ?thesis using t by simp
  next
    case (Some p)
    with Cons.prems a obtain data1 where
      "srcs_loop R dd opt (topo, data1) = ((topo', data'), None)"
      by (cases "ds_type ds = ''ImageFolder''") auto
    note ih = Cons.IH[OF this]
    from ih have t: "trgs topo' = trgs topo" by simp
    from ih
    have "srcs topo' = filter (\<lambda>(k, ds). k \<in> dom dd \<or> k \<notin> fst ` set R) (srcs topo)"
      by simp
    also have "filter (\<lambda>(k, ds). k \<in> dom dd \<or> k \<notin> fst ` set R) (srcs topo)
        = filter (\<lambda>(k, ds). k \<in> dom dd \<or> k \<notin> fst ` set (a # R)) (srcs topo)"
      using Some a by (intro filter_cong) (auto simp: dom_def)
    finally show ?thesis using t by simp
  qed
qed

lemma trgs_loop_None:
  "trgs_loop R dd vocabs (topo, data) = ((topo', data'), None) \<Longrightarrow>
     trgs topo' = filter (\<lambda>(k, ds). k \<in> dom dd \<or> k \<notin> fst ` set R) (trgs topo) \<and>
     srcs topo' = srcs topo"
proof (induction R arbitrary: topo data)
  case Nil
  then show ?case by simp
next
  case (Cons a R)
  obtain trg ds where a: "a = (trg, ds)" by (cases a)
  show ?case
  proof (cases "dd trg")
    case None
    with Cons.prems a have m: "trg \<in> fst ` set (trgs topo)"
      by (auto simp: dict_del_def split: if_splits)
    with Cons.prems a None
    have "trgs_loop R dd vocabs (topo\<lparr>trgs := AList.delete trg (trgs topo)\<rparr>, data) = ((topo', data'), None)"
      by (simp add: dict_del_def)
    note ih = Cons.IH[OF this]
    from ih have t: "srcs topo' = srcs topo" by simp
    from ih
    have "trgs topo' = filter (\<lambda>(k, ds). k \<in> dom dd \<or> k \<notin> fst ` set R) (AList.delete trg (trgs topo))"
      by simp
    then have "trgs topo' =
        filter (\<lambda>(k, ds). (k \<in> dom dd \<or> k \<notin> fst ` set R) \<and> k \<noteq> trg) (trgs topo)"
      by (auto simp: AList.delete_eq intro!: filter_cong)
    also have "\<dots> = filter (\<lambda>(k, ds). k \<in> dom dd \<or> k \<notin> fst ` set (a # R)) (trgs topo)"
      using None a by (intro filter_cong) (auto simp: dom_def)
    finally show ?thesis using t by simp
  next
    case (Some p)
    with Cons.prems a obtain data1 where
      "trgs_loop R dd vocabs (topo, data1) = ((topo', data'), None)"
      by (cases "vocabs trg") auto
    note ih = Cons.IH[OF this]
    from ih have t: "srcs topo' = srcs topo" by simp
    from ih
    have "trgs topo' = filter (\<lambda>(k, ds). k \<in> dom dd \<or> k \<notin> fst ` set R) (trgs topo)"
      by simp
    also have "filter (\<lambda>(k, ds). k \<in> dom dd \<or> k \<notin> fst ` set R) (trgs topo)
        = filter (\<lambda>(k, ds). k \<in> dom dd \<or> k \<notin> fst ` set (a # R)) (trgs topo)"
      using Some a by (intro filter_cong) (auto simp: dom_def)
    finally show ?thesis using t by simp
  qed
qed

lemma filter_own_keys:
  "filter (\<lambda>(k, ds). k \<in> D \<or> k \<notin> fst ` set xs) xs = filter (\<lambda>(k, ds). k \<in> D) xs"
  by (intro filter_cong) force+

lemma keys_filter_dom:
  "fst ` set (filter (\<lambda>(k, ds). k \<in> D) xs) = fst ` set xs \<inter> D"
  by force

lemma dataset_init_Inr:
  assumes "dataset_init mk dd vocabs topo opt = (topo', Inr self)"
  shows "\<exists>topo1 data1 data2.
           srcs_loop (srcs topo) dd opt (topo, Map.empty) = ((topo1, data1), None) \<and>
           trgs_loop (trgs topo1) dd vocabs (topo1, data1) = ((topo', data2), None) \<and>
           topology self = topo'"
  using assms
  by (auto simp: dataset_init_def split: prod.splits option.splits sum.splits)

text \<open>
  Claim C10: when the constructor returns, the caller's topology holds, of its original
  sources and of its original targets, exactly the entries whose key has an entry in
  \<open>data_dict\<close>, in their order and with their values; the keys without data are gone;
  and the topology of the new object is that same, changed, topology.
\<close>

theorem dataset_init_topology:
  assumes "dataset_init mk dd vocabs topo opt = (topo', Inr self)"
  shows "srcs topo' = filter (\<lambda>(k, ds). k \<in> dom dd) (srcs topo) \<and>
         trgs topo' = filter (\<lambda>(k, ds). k \<in> dom dd) (trgs topo) \<and>
         fst ` set (srcs topo') = fst ` set (srcs topo) \<inter> dom dd \<and>
         fst ` set (trgs topo') = fst ` set (trgs topo) \<inter> dom dd \<and>
         topology self = topo'"
proof -
  from dataset_init_Inr[OF assms] obtain topo1 data1 data2 where
    s: "srcs_loop (srcs topo) dd opt (topo, Map.empty) = ((topo1, data1), None)" and
    t: "trgs_loop (trgs topo1) dd vocabs (topo1, data1) = ((topo', data2), None)" and
    o: "topology self = topo'"
    by blast
  from srcs_loop_None[OF s]
  have s1: "srcs topo1 = filter (\<lambda>(k, ds). k \<in> dom dd) (srcs topo)" and t1: "trgs topo1 = trgs topo"
    by (simp_all add: filter_own_keys)
  from trgs_loop_None[OF t]
  have t2: "trgs topo' = filter (\<lambda>(k, ds). k \<in> dom dd) (trgs topo1)" and s2: "srcs topo' = srcs topo1"
    by (simp_all add: filter_own_keys)
  from s1 s2 have a: "srcs topo' = filter (\<lambda>(k, ds). k \<in> dom dd) (srcs topo)" by simp
  from t1 t2 have b: "trgs topo' = filter (\<lambda>(k, ds). k \<in> dom dd) (trgs topo)" by simp
  from a have c: "fst ` set (srcs topo') = fst ` set (srcs topo) \<inter> dom dd"
    by (simp only: keys_filter_dom)
  from b have d: "fst ` set (trgs topo') = fst ` set (trgs topo) \<inter> dom dd"
    by (simp only: keys_filter_dom)
  from a b c d o show ?thesis by blast
qed

theorem dataset_init_topology_witness:
  "srcs (fst (dataset_init mk_dataset0 data_dict0 vocabs0 topo0 options0)) =
     [(''image'', \<lparr>ds_name = ''image'', ds_type = ''ImageFolder''\<rparr>)] \<and>
   trgs (fst (dataset_init mk_dataset0 data_dict0 vocabs0 topo0 options0)) =
     [(''label'', \<lparr>ds_name = ''label'', ds_type = ''OneHot''\<rparr>)]"
proof -
  let ?t = "\<lparr>srcs = [(''image'', \<lparr>ds_name = ''image'', ds_type = ''ImageFolder''\<rparr>)],
             trgs = [(''label'', \<lparr>ds_name = ''label'', ds_type = ''OneHot''\<rparr>)]\<rparr>"
  have "\<exists>self. dataset_init mk_dataset0 data_dict0 vocabs0 topo0 options0 = (?t, Inr self)"
    by (simp add: dataset_init_def topo0_def data_dict0_def vocabs0_def dict_del_def)
  then obtain self where
    r: "dataset_init mk_dataset0 data_dict0 vocabs0 topo0 options0 = (?t, Inr self)" ..
  from dataset_init_topology[OF r]
  have "srcs ?t = filter (\<lambda>(k, ds). k \<in> dom data_dict0) (srcs topo0)"
   and "trgs ?t = filter (\<lambda>(k, ds). k \<in> dom data_dict0) (trgs topo0)"
    by blast+
  then show ?thesis by (simp add: r)
qed

text \<open>
  The same call with data for the text source: line 52 looks up \<open>data['en']\<close>, which
  only image sources have, and the constructor raises after it has changed the topology.
\<close>

lemma text_source_raises:
  "dataset_init mk_dataset0 (data_dict0(''en'' \<mapsto> ''/data/test.en'')) vocabs0 topo0 options0 =
     (\<lparr>srcs = srcs topo0,
       trgs = [(''label'', \<lparr>ds_name = ''label'', ds_type = ''OneHot''\<rparr>)]\<rparr>,
      Inl KeyError)"
  by (simp add: dataset_init_def topo0_def data_dict0_def vocabs0_def dict_del_def)

section \<open>The data iterator\<close>

lemma chunks_Nil: "chunks n [] = []"
  by (simp add: chunks.simps)

lemma chunks_step:
  "0 < n \<Longrightarrow> xs \<noteq> [] \<Longrightarrow> chunks n xs = take n xs # chunks n (drop n xs)"
  by (subst chunks.simps) simp

text \<open>Cutting a list into batches loses nothing and keeps the order.\<close>

lemma concat_chunks: "0 < n \<Longrightarrow> concat (chunks n xs) = xs"
proof (induction n xs rule: chunks.induct)
  case (1 n xs)
  show ?case
  proof (cases "xs = []")
    case True
    then show ?thesis by (simp add: chunks_Nil)
  next
    case False
    with 1 have "concat (chunks n (drop n xs)) = drop n xs" by simp
    with False "1.prems" show ?thesis by (simp add: chunks_step)
  qed
qed

lemma chunks_length: "0 < n \<Longrightarrow> list_all (\<lambda>c. length c \<le> n) (chunks n xs)"
proof (induction n xs rule: chunks.induct)
  case (1 n xs)
  show ?case
  proof (cases "xs = []")
    case True
    then show ?thesis by (simp add: chunks_Nil)
  next
    case False
    with 1 have "list_all (\<lambda>c. length c \<le> n) (chunks n (drop n xs))" by simp
    with False "1.prems" show ?thesis by (simp add: chunks_step)
  qed
qed

text \<open>The keys of the dictionary of line 52 (or 53) are the data sources of the topology.\<close>

lemma collect_datasets_keys:
  "collect_datasets xs data acc = Inr sd \<Longrightarrow> fst ` set sd = fst ` set acc \<union> snd ` set xs"
proof (induction xs arbitrary: acc)
  case Nil
  then show ?case by simp
next
  case (Cons a xs)
  obtain k v where a: "a = (k, v)" by (cases a)
  with Cons.prems obtain d where d: "data k = Some d"
    and r: "collect_datasets xs data (AList.update v d acc) = Inr sd"
    by (cases "data k") simp_all
  from Cons.IH[OF r] have "fst ` set sd = fst ` set (AList.update v d acc) \<union> snd ` set xs" .
  with a show ?case by (simp add: dom_update)
qed

lemma dataset_init_datasets:
  assumes "dataset_init mk dd vocabs topo opt = (topo', Inr self)"
  shows "\<exists>data sd td.
           collect_datasets (srcs topo') data [] = Inr sd \<and>
           collect_datasets (trgs topo') data [] = Inr td \<and>
           dataset self = mk sd td"
  using assms
  by (fastforce simp: dataset_init_def split: prod.splits option.splits sum.splits)

text \<open>
  Claim C9, as stated, speaks of every batch size. For a batch size of zero the call of
  line 67 raises, and \<open>get_iterator\<close> returns no loader at all.
\<close>

theorem zero_batch_size_counterexample:
  "\<exists>topo' self.
     dataset_init MultiParallelDataset_init data_dict0 vocabs0 topo0 options0 = (topo', Inr self) \<and>
     get_iterator self 0 True True = Inl ValueError"
  by (simp add: dataset_init_def topo0_def data_dict0_def vocabs0_def dict_del_def
        get_iterator_def DataLoader_init_def)

text \<open>
  Claim C9, amended to positive batch sizes, for a dataset object as its constructor
  returns it. With \<open>inference=True\<close>, \<open>get_iterator\<close> returns a loader that does not
  shuffle: over \<open>n\<close> examples its batches hold, put one after the other, the examples
  \<open>0, ..., n - 1\<close> in this order, at most \<open>batch_size\<close> in a batch, whatever order a
  sampler would have drawn. With \<open>drop_targets=True\<close> every batch holds data for the
  same keys, which are exactly the data sources of the sources of the topology; none of
  them is a key of the target datasets, as long as no data source is a source and a
  target at once.
\<close>

theorem get_iterator_inference:
  assumes "dataset_init MultiParallelDataset_init dd vocabs topo opt = (topo', Inr self)"
      and "0 < bs"
  shows "(\<exists>L. get_iterator self bs drop_targets True = Inr L \<and>
              shuffle L = False \<and> dl_batch_size L = bs \<and>
              concat (map fst (batches L n perm)) = [0..<n] \<and>
              list_all (\<lambda>b. length (fst b) \<le> nat bs) (batches L n perm)) \<and>
         (\<exists>L. get_iterator self bs True inference = Inr L \<and>
              list_all (\<lambda>b. snd b = collate_keys L) (batches L n perm) \<and>
              set (collate_keys L) = snd ` set (srcs topo') \<and>
              (snd ` set (srcs topo') \<inter> snd ` set (trgs topo') = {} \<longrightarrow>
                 set (collate_keys L) \<inter> fst ` set (trg_datasets (dataset self)) = {}))"
proof -
  from dataset_init_datasets[OF assms(1)] obtain data sd td where
    sd: "collect_datasets (srcs topo') data [] = Inr sd" and
    td: "collect_datasets (trgs topo') data [] = Inr td" and
    ds: "dataset self = MultiParallelDataset_init sd td"
    by blast
  from collect_datasets_keys[OF sd] have ks: "fst ` set sd = snd ` set (srcs topo')" by simp
  from collect_datasets_keys[OF td] have kt: "fst ` set td = snd ` set (trgs topo')" by simp
  from assms(2) have nb: "0 < nat bs" by simp
  let ?keys = "\<lambda>dt. if dt then sources (dataset self) else data_sources (dataset self)"
  let ?L1 = "\<lparr>dl_dataset = dataset self, shuffle = False, dl_batch_size = bs,
              collate_keys = ?keys drop_targets\<rparr>"
  have g1: "get_iterator self bs drop_targets True = Inr ?L1"
    using assms(2) by (simp add: get_iterator_def DataLoader_init_def Let_def)
  have c1: "map fst (batches ?L1 n perm) = chunks (nat bs) [0..<n]"
    by (simp add: batches_def comp_def)
  have o1: "concat (map fst (batches ?L1 n perm)) = [0..<n]"
    unfolding c1 by (rule concat_chunks[OF nb])
  have "list_all (\<lambda>c. length c \<le> nat bs) (map fst (batches ?L1 n perm))"
    unfolding c1 by (rule chunks_length[OF nb])
  then have b1: "list_all (\<lambda>b. length (fst b) \<le> nat bs) (batches ?L1 n perm)"
    by (simp add: list_all_iff)
  let ?L2 = "\<lparr>dl_dataset = dataset self, shuffle = \<not> inference, dl_batch_size = bs,
              collate_keys = sources (dataset self)\<rparr>"
  have g2: "get_iterator self bs True inference = Inr ?L2"
    using assms(2) by (simp add: get_iterator_def DataLoader_init_def Let_def)
  have a2: "list_all (\<lambda>b. snd b = collate_keys ?L2) (batches ?L2 n perm)"
    by (simp add: batches_def list_all_iff)
  have k2: "set (collate_keys ?L2) = snd ` set (srcs topo')"
    using ks by (simp add: ds MultiParallelDataset_init_def)
  have t2: "fst ` set (trg_datasets (dataset self)) = snd ` set (trgs topo')"
    using kt by (simp add: ds MultiParallelDataset_init_def)
  have d2: "snd ` set (srcs topo') \<inter> snd ` set (trgs topo') = {} \<longrightarrow>
        set (collate_keys ?L2) \<inter> fst ` set (trg_datasets (dataset self)) = {}"
    unfolding k2 t2 by simp
  from g1 o1 b1 have p1: "\<exists>L. get_iterator self bs drop_targets True = Inr L \<and>
              shuffle L = False \<and> dl_batch_size L = bs \<and>
              concat (map fst (batches L n perm)) = [0..<n] \<and>
              list_all (\<lambda>b. length (fst b) \<le> nat bs) (batches L n perm)"
    by (intro exI[of _ ?L1]) simp
  from g2 a2 k2 d2 have p2: "\<exists>L. get_iterator self bs True inference = Inr L \<and>
              list_all (\<lambda>b. snd b = collate_keys L) (batches L n perm) \<and>
              set (collate_keys L) = snd ` set (srcs topo') \<and>
              (snd ` set (srcs topo') \<inter> snd ` set (trgs topo') = {} \<longrightarrow>
                 set (collate_keys L) \<inter> fst ` set (trg_datasets (dataset self)) = {})"
    by (intro exI[of _ ?L2]) blast
  from p1 p2 show ?thesis by blast
qed

theorem get_iterator_inference_witness:
  "\<exists>topo' self L.
     dataset_init MultiParallelDataset_init data_dict0 vocabs0 topo0 options0 = (topo', Inr self) \<and>
     get_iterator self 2 True True = Inr L \<and>
     shuffle L = False \<and>
     concat (map fst (batches L 5 [4, 3, 2, 1, 0])) = [0..<5] \<and>
     set (collate_keys L) = {\<lparr>ds_name = ''image'', ds_type = ''ImageFolder''\<rparr>} \<and>
     set (collate_keys L) \<inter> fst ` set (trg_datasets (dataset self)) = {}"
proof -
  let ?t = "\<lparr>srcs = [(''image'', \<lparr>ds_name = ''image'', ds_type = ''ImageFolder''\<rparr>)],
             trgs = [(''label'', \<lparr>ds_name = ''label'', ds_type = ''OneHot''\<rparr>)]\<rparr>"
  have "\<exists>self. dataset_init MultiParallelDataset_init data_dict0 vocabs0 topo0 options0
          = (?t, Inr self)"
    by (simp add: dataset_init_def topo0_def data_dict0_def vocabs0_def dict_del_def)
  then obtain self where
    r: "dataset_init MultiParallelDataset_init data_dict0 vocabs0 topo0 options0 = (?t, Inr self)" ..
  have b: "(0::int) < 2" by simp
  from get_iterator_inference[OF r b, of True 5 "[4, 3, 2, 1, 0]" True]
  obtain L1 L2 where
    l1: "get_iterator self 2 True True = Inr L1" "shuffle L1 = False"
        "concat (map fst (batches L1 5 [4, 3, 2, 1, 0])) = [0..<5]" and
    l2: "get_iterator self 2 True True = Inr L2"
        "set (collate_keys L2) = snd ` set (srcs ?t)"
        "snd ` set (srcs ?t) \<inter> snd ` set (trgs ?t) = {} \<longrightarrow>
           set (collate_keys L2) \<inter> fst ` set (trg_datasets (dataset self)) = {}"
    by blast
  from l1(1) l2(1) have e: "L2 = L1" by simp
  from l2(2) e have k: "set (collate_keys L1) = {\<lparr>ds_name = ''image'', ds_type = ''ImageFolder''\<rparr>}"
    by simp
  from l2(3) e have d: "set (collate_keys L1) \<inter> fst ` set (trg_datasets (dataset self)) = {}"
    by simp
  from r l1 k d show ?thesis by blast
qed

text \<open>The batches of five examples, two at a time, in their order.\<close>

lemma batches_example:
  "map fst (batches \<lparr>dl_dataset = MultiParallelDataset_init [] [], shuffle = False,
                      dl_batch_size = 2, collate_keys = []\<rparr> 5 [4, 3, 2, 1, 0])
     = [[0, 1], [2, 3], [4]]"
  by (simp add: batches_def comp_def) code_simp

text \<open>Without \<open>drop_targets\<close> the keys of the targets are collated as well.\<close>

lemma keep_targets_example:
  "\<exists>topo' self L.
     dataset_init MultiParallelDataset_init data_dict0 vocabs0 topo0 options0 = (topo', Inr self) \<and>
     get_iterator self 2 False True = Inr L \<and>
     collate_keys L = [\<lparr>ds_name = ''image'', ds_type = ''ImageFolder''\<rparr>,
                       \<lparr>ds_name = ''label'', ds_type = ''OneHot''\<rparr>]"
  by (simp add: dataset_init_def topo0_def data_dict0_def vocabs0_def dict_del_def
        get_iterator_def DataLoader_init_def MultiParallelDataset_init_def)

end
